theory Spec2Isabelle
  imports Main
begin

section \<open>Python values\<close>

text \<open>
  The values that \<^verbatim>\<open>response.json()\<close> returns and that the client puts into request
  bodies and queries: \<^verbatim>\<open>None\<close>, booleans, integers, strings, lists and dicts. A dict is an
  association list in insertion order with distinct keys. JSON numbers with a fraction or
  an exponent (Python floats) are not represented. Strings are lists of 8-bit characters,
  read as code points.
\<close>

datatype json =
    JNull
  | JBool bool
  | JInt int
  | JStr string
  | JList "json list"
  | JObj "(string \<times> json) list"

datatype error =
    SiigoAuthError string
  | SiigoAPIError string "int option" "json option"
  | ValueError string
  | RequestException string
  | AttributeError
  | KeyError string
  | TypeError

text \<open>
  \<open>SiigoAPIError message status_code response\<close> has the two optional attributes of the
  class; \<open>RequestException\<close> is an exception of the HTTP library that reaches the caller
  untranslated; \<open>AttributeError\<close>, \<open>KeyError\<close> and \<open>TypeError\<close> are the interpreter's.
\<close>

text \<open>Truth value of a Python value, as \<^verbatim>\<open>if x\<close> and \<^verbatim>\<open>not x\<close> test it.\<close>

fun py_truthy :: "json \<Rightarrow> bool" where
  "py_truthy JNull = False"
| "py_truthy (JBool b) = b"
| "py_truthy (JInt i) = (i \<noteq> 0)"
| "py_truthy (JStr s) = (s \<noteq> [])"
| "py_truthy (JList xs) = (xs \<noteq> [])"
| "py_truthy (JObj kvs) = (kvs \<noteq> [])"

text \<open>\<^verbatim>\<open>d.get(k)\<close>: the value under the key, \<^verbatim>\<open>None\<close> when the key is missing.\<close>

definition dict_get :: "(string \<times> json) list \<Rightarrow> string \<Rightarrow> json" where
  "dict_get kvs k = (case map_of kvs k of None \<Rightarrow> JNull | Some v \<Rightarrow> v)"

text \<open>\<^verbatim>\<open>x[k]\<close> with a string key: only a dict that has the key answers.\<close>

fun py_getitem :: "json \<Rightarrow> string \<Rightarrow> error + json" where
  "py_getitem (JObj kvs) k = (case map_of kvs k of None \<Rightarrow> Inl (KeyError k) | Some v \<Rightarrow> Inr v)"
| "py_getitem _ k = Inl TypeError"

text \<open>Decimal digits of a natural number, most significant first.\<close>

function str_nat :: "nat \<Rightarrow> string" where
  "str_nat n = (if n < 10 then [''0123456789'' ! n] else str_nat (n div 10) @ [''0123456789'' ! (n mod 10)])"
  by pat_completeness auto
termination
  by (relation "measure (\<lambda>n. n)") auto

declare str_nat.simps [simp del]

definition str_int :: "int \<Rightarrow> string" where
  "str_int i = (if i < 0 then ''-'' @ str_nat (nat (- i)) else str_nat (nat i))"

text \<open>
  \<^verbatim>\<open>str(x)\<close>, which is what an f-string inserts for \<^verbatim>\<open>{x}\<close>. The text Python prints for a
  list or a dict (the \<^verbatim>\<open>repr\<close> of each element) is left unspecified.
\<close>

fun py_str :: "json \<Rightarrow> string" where
  "py_str JNull = ''None''"
| "py_str (JBool b) = (if b then ''True'' else ''False'')"
| "py_str (JInt i) = str_int i"
| "py_str (JStr s) = s"
| "py_str (JList xs) = undefined"
| "py_str (JObj kvs) = undefined"

section \<open>The outside world: clock and network\<close>

text \<open>
  A \<^verbatim>\<open>datetime\<close> is the number of microseconds since 0001-01-01 00:00:00, the linear scale
  on which naive datetimes are added and compared. Clock readings are taken well inside
  the years 1000 to 9999, so that adding a \<^verbatim>\<open>timedelta\<close> stays in Python's range.
\<close>

type_synonym datetime = int

definition hours :: "int \<Rightarrow> int" where
  "hours n = n * 3600000000"

record request =
  req_method :: string
  req_url :: string
  req_headers :: "(string \<times> string) list"
  req_json :: "json option"
  req_params :: "(string \<times> json) list option"

text \<open>
  A response: its status, its body as bytes and as text, and what \<^verbatim>\<open>.json()\<close> gives, the
  parsed value or the message of the decoding error it raises.
\<close>

record response =
  status_code :: int
  resp_content :: string
  resp_text :: string
  resp_json :: "string + json"

text \<open>
  A call of the HTTP library either brings a response or raises a transport-level
  \<^verbatim>\<open>RequestException\<close> (no response received) whose \<^verbatim>\<open>str\<close> is the given text.
\<close>

datatype net_outcome =
    Responded response
  | ConnectionFailed string

text \<open>
  The world answers the \<open>k\<close>-th reading of \<^verbatim>\<open>datetime.now()\<close> with \<open>clock k\<close> and a call of
  the HTTP library with \<open>net\<close> of all calls issued so far, the current one last. \<open>sent\<close> is
  the log of the calls issued, \<open>reads\<close> the number of clock readings taken.
\<close>

record world =
  clock :: "nat \<Rightarrow> datetime"
  reads :: nat
  net :: "request list \<Rightarrow> net_outcome"
  sent :: "request list"

definition datetime_now :: "world \<Rightarrow> datetime \<times> world" where
  "datetime_now w = (clock w (reads w), w\<lparr>reads := Suc (reads w)\<rparr>)"

definition http_send :: "request \<Rightarrow> world \<Rightarrow> net_outcome \<times> world" where
  "http_send rq w = (net w (sent w @ [rq]), w\<lparr>sent := sent w @ [rq]\<rparr>)"

text \<open>\<^verbatim>\<open>raise_for_status()\<close> raises \<^verbatim>\<open>HTTPError\<close> for the statuses 400 to 599.\<close>

definition is_http_error :: "response \<Rightarrow> bool" where
  "is_http_error r = (400 \<le> status_code r \<and> status_code r < 600)"

section \<open>The client (siigo\_client.py)\<close>

record client =
  username :: string
  access_key :: string
  application_name :: string
  access_token :: json
  token_expiry :: "datetime option"

definition BASE_URL :: string where
  "BASE_URL = ''https://api.siigo.com''"

definition AUTH_ENDPOINT :: string where
  "AUTH_ENDPOINT = ''/auth''"

definition INVOICES_ENDPOINT :: string where
  "INVOICES_ENDPOINT = ''/v1/invoices''"

text \<open>\<^verbatim>\<open>SiigoClient.__init__\<close>\<close>

definition SiigoClient :: "string \<Rightarrow> string \<Rightarrow> string \<Rightarrow> client" where
  "SiigoClient u k a =
     \<lparr>username = u, access_key = k, application_name = a,
      access_token = JNull, token_expiry = None\<rparr>"

text \<open>
  \<^verbatim>\<open>_needs_token_refresh\<close>. The \<^verbatim>\<open>or\<close> short-circuits: the clock is read only when a truthy
  token and an expiry are cached.
\<close>

definition needs_token_refresh :: "client \<Rightarrow> world \<Rightarrow> bool \<times> world" where
  "needs_token_refresh c w =
     (if \<not> py_truthy (access_token c) \<or> token_expiry c = None then (True, w)
      else (case datetime_now w of
              (now, w') \<Rightarrow> (now \<ge> the (token_expiry c) - hours 1, w')))"

text \<open>The call that \<^verbatim>\<open>_authenticate\<close> issues.\<close>

definition auth_request :: "client \<Rightarrow> request" where
  "auth_request c =
     \<lparr>req_method = ''POST'',
      req_url = BASE_URL @ AUTH_ENDPOINT,
      req_headers = [(''Content-Type'', ''application/json''), (''Partner-Id'', application_name c)],
      req_json = Some (JObj [(''username'', JStr (username c)), (''access_key'', JStr (access_key c))]),
      req_params = None\<rparr>"

text \<open>
  \<^verbatim>\<open>_authenticate\<close>. The decoding error of \<^verbatim>\<open>response.json()\<close> is a \<^verbatim>\<open>RequestException\<close>
  (requests 2.27 and later), so the second handler takes it; \<^verbatim>\<open>.get\<close> on a body that is
  not a dict raises \<^verbatim>\<open>AttributeError\<close>, which no handler takes. Both attributes are
  assigned only after the body has been read.
\<close>

definition authenticate :: "client \<Rightarrow> world \<Rightarrow> (error + unit) \<times> client \<times> world" where
  "authenticate c w =
     (case http_send (auth_request c) w of
        (ConnectionFailed m, w1) \<Rightarrow> (Inl (SiigoAuthError (''Connection error: '' @ m)), c, w1)
      | (Responded r, w1) \<Rightarrow>
          if is_http_error r then
            (Inl (SiigoAuthError (''Authentication failed: '' @ str_int (status_code r)
                                   @ '' - '' @ resp_text r)), c, w1)
          else
            (case resp_json r of
               Inl m \<Rightarrow> (Inl (SiigoAuthError (''Connection error: '' @ m)), c, w1)
             | Inr (JObj kvs) \<Rightarrow>
                 (case datetime_now w1 of
                    (now, w2) \<Rightarrow>
                      (Inr (),
                       c\<lparr>access_token := dict_get kvs ''access_token'',
                         token_expiry := Some (now + hours 24)\<rparr>,
                       w2))
             | Inr _ \<Rightarrow> (Inl AttributeError, c, w1)))"

definition auth_headers :: "client \<Rightarrow> (string \<times> string) list" where
  "auth_headers c =
     [(''Authorization'', ''Bearer '' @ py_str (access_token c)),
      (''Content-Type'', ''application/json''),
      (''Partner-Id'', application_name c)]"

text \<open>\<^verbatim>\<open>_get_auth_headers\<close>\<close>

definition get_auth_headers :: "client \<Rightarrow> world \<Rightarrow> (error + (string \<times> string) list) \<times> client \<times> world" where
  "get_auth_headers c w =
     (case needs_token_refresh c w of
        (True, w1) \<Rightarrow>
          (case authenticate c w1 of
             (Inl e, c', w2) \<Rightarrow> (Inl e, c', w2)
           | (Inr _, c', w2) \<Rightarrow> (Inr (auth_headers c'), c', w2))
      | (False, w1) \<Rightarrow> (Inr (auth_headers c), c, w1))"

text \<open>
  \<^verbatim>\<open>_make_request\<close>. The headers are obtained outside the \<^verbatim>\<open>try\<close>, so an authentication
  error passes through. In the \<^verbatim>\<open>HTTPError\<close> handler the bare \<^verbatim>\<open>except\<close> keeps the empty dict
  when the error body does not parse.
\<close>

definition make_request ::
  "string \<Rightarrow> string \<Rightarrow> json option \<Rightarrow> (string \<times> json) list option \<Rightarrow> client \<Rightarrow> world
   \<Rightarrow> (error + json) \<times> client \<times> world" where
  "make_request method endpoint data params c w =
     (case get_auth_headers c w of
        (Inl e, c1, w1) \<Rightarrow> (Inl e, c1, w1)
      | (Inr headers, c1, w1) \<Rightarrow>
          (case http_send \<lparr>req_method = method, req_url = BASE_URL @ endpoint,
                           req_headers = headers, req_json = data, req_params = params\<rparr> w1 of
             (ConnectionFailed m, w2) \<Rightarrow>
               (Inl (SiigoAPIError (''Connection error: '' @ m) None None), c1, w2)
           | (Responded r, w2) \<Rightarrow>
               if is_http_error r then
                 (Inl (SiigoAPIError
                         (''API request failed: '' @ str_int (status_code r) @ '' - '' @ resp_text r)
                         (Some (status_code r))
                         (Some (case resp_json r of Inl _ \<Rightarrow> JObj [] | Inr j \<Rightarrow> j))),
                  c1, w2)
               else if resp_content r \<noteq> [] then
                 (case resp_json r of
                    Inl m \<Rightarrow> (Inl (SiigoAPIError (''Connection error: '' @ m) None None), c1, w2)
                  | Inr j \<Rightarrow> (Inr j, c1, w2))
               else (Inr (JObj []), c1, w2)))"

text \<open>
  The arguments of \<^verbatim>\<open>get_invoices\<close>; \<open>default_invoice_query\<close> holds the defaults of the
  signature.
\<close>

record invoice_query =
  page :: int
  page_size :: int
  created_start :: "string option"
  created_end :: "string option"
  date_start :: "string option"
  date_end :: "string option"
  updated_start :: "string option"
  updated_end :: "string option"
  customer_identification :: "string option"
  customer_branch_office :: "int option"
  name :: "string option"

definition default_invoice_query :: invoice_query where
  "default_invoice_query =
     \<lparr>page = 1, page_size = 25, created_start = None, created_end = None,
      date_start = None, date_end = None, updated_start = None, updated_end = None,
      customer_identification = None, customer_branch_office = None, name = None\<rparr>"

text \<open>
  \<^verbatim>\<open>if v: params[k] = v\<close> for an optional string and an optional integer: the entry is
  added when the value is truthy, that is neither \<^verbatim>\<open>None\<close> nor empty (nor zero).
\<close>

definition opt_str :: "string \<Rightarrow> string option \<Rightarrow> (string \<times> json) list" where
  "opt_str k v = (case v of None \<Rightarrow> [] | Some s \<Rightarrow> if s \<noteq> [] then [(k, JStr s)] else [])"

definition opt_int :: "string \<Rightarrow> int option \<Rightarrow> (string \<times> json) list" where
  "opt_int k v = (case v of None \<Rightarrow> [] | Some i \<Rightarrow> if i \<noteq> 0 then [(k, JInt i)] else [])"

definition get_invoices_params :: "invoice_query \<Rightarrow> (string \<times> json) list" where
  "get_invoices_params q =
     [(''page'', JInt (page q)), (''page_size'', JInt (min (page_size q) 100))]
     @ opt_str ''created_start'' (created_start q)
     @ opt_str ''created_end'' (created_end q)
     @ opt_str ''date_start'' (date_start q)
     @ opt_str ''date_end'' (date_end q)
     @ opt_str ''updated_start'' (updated_start q)
     @ opt_str ''updated_end'' (updated_end q)
     @ opt_str ''customer_identification'' (customer_identification q)
     @ opt_int ''customer_branch_office'' (customer_branch_office q)
     @ opt_str ''name'' (name q)"

definition get_invoices :: "invoice_query \<Rightarrow> client \<Rightarrow> world \<Rightarrow> (error + json) \<times> client \<times> world" where
  "get_invoices q = make_request ''GET'' INVOICES_ENDPOINT None (Some (get_invoices_params q))"

definition get_invoice :: "string \<Rightarrow> client \<Rightarrow> world \<Rightarrow> (error + json) \<times> client \<times> world" where
  "get_invoice invoice_id = make_request ''GET'' (INVOICES_ENDPOINT @ ''/'' @ invoice_id) None None"

definition create_invoice :: "json \<Rightarrow> client \<Rightarrow> world \<Rightarrow> (error + json) \<times> client \<times> world" where
  "create_invoice invoice_data = make_request ''POST'' INVOICES_ENDPOINT (Some invoice_data) None"

definition update_invoice :: "string \<Rightarrow> json \<Rightarrow> client \<Rightarrow> world \<Rightarrow> (error + json) \<times> client \<times> world" where
  "update_invoice invoice_id invoice_data =
     make_request ''PUT'' (INVOICES_ENDPOINT @ ''/'' @ invoice_id) (Some invoice_data) None"

definition delete_invoice :: "string \<Rightarrow> client \<Rightarrow> world \<Rightarrow> (error + json) \<times> client \<times> world" where
  "delete_invoice invoice_id = make_request ''DELETE'' (INVOICES_ENDPOINT @ ''/'' @ invoice_id) None None"

text \<open>
  \<^verbatim>\<open>get_invoice_pdf\<close> calls the HTTP library itself and returns the body as bytes. Its
  only handler is for \<^verbatim>\<open>HTTPError\<close>: a transport-level exception leaves the method as it is.
\<close>

definition get_invoice_pdf :: "string \<Rightarrow> client \<Rightarrow> world \<Rightarrow> (error + string) \<times> client \<times> world" where
  "get_invoice_pdf invoice_id c w =
     (case get_auth_headers c w of
        (Inl e, c1, w1) \<Rightarrow> (Inl e, c1, w1)
      | (Inr headers, c1, w1) \<Rightarrow>
          (case http_send \<lparr>req_method = ''GET'',
                           req_url = BASE_URL @ INVOICES_ENDPOINT @ ''/'' @ invoice_id @ ''/pdf'',
                           req_headers = headers, req_json = None, req_params = None\<rparr> w1 of
             (ConnectionFailed m, w2) \<Rightarrow> (Inl (RequestException m), c1, w2)
           | (Responded r, w2) \<Rightarrow>
               if is_http_error r then
                 (Inl (SiigoAPIError (''Failed to get invoice PDF: '' @ str_int (status_code r))
                         (Some (status_code r)) None),
                  c1, w2)
               else (Inr (resp_content r), c1, w2)))"

definition send_invoice_email ::
  "string \<Rightarrow> string \<Rightarrow> string list option \<Rightarrow> client \<Rightarrow> world \<Rightarrow> (error + json) \<times> client \<times> world" where
  "send_invoice_email invoice_id email copy_to =
     make_request ''POST'' (INVOICES_ENDPOINT @ ''/'' @ invoice_id @ ''/mail'')
       (Some (JObj ([(''mail_to'', JStr email)]
                    @ (case copy_to of
                         None \<Rightarrow> []
                       | Some cc \<Rightarrow> if cc \<noteq> [] then [(''copy_to'', JList (map JStr cc))] else []))))
       None"

definition get_document_types :: "client \<Rightarrow> world \<Rightarrow> (error + json) \<times> client \<times> world" where
  "get_document_types = make_request ''GET'' ''/v1/document-types'' None (Some [(''type'', JStr ''FV'')])"

definition get_payment_types :: "string \<Rightarrow> client \<Rightarrow> world \<Rightarrow> (error + json) \<times> client \<times> world" where
  "get_payment_types document_type =
     make_request ''GET'' ''/v1/payment-types'' None (Some [(''document_type'', JStr document_type)])"

definition get_taxes :: "client \<Rightarrow> world \<Rightarrow> (error + json) \<times> client \<times> world" where
  "get_taxes = make_request ''GET'' ''/v1/taxes'' None None"

definition get_sellers :: "client \<Rightarrow> world \<Rightarrow> (error + json) \<times> client \<times> world" where
  "get_sellers = make_request ''GET'' ''/v1/users'' None (Some [(''role'', JStr ''seller'')])"

definition get_products :: "int \<Rightarrow> int \<Rightarrow> client \<Rightarrow> world \<Rightarrow> (error + json) \<times> client \<times> world" where
  "get_products pg pg_size =
     make_request ''GET'' ''/v1/products'' None
       (Some [(''page'', JInt pg), (''page_size'', JInt pg_size)])"

definition get_customers ::
  "int \<Rightarrow> int \<Rightarrow> string option \<Rightarrow> client \<Rightarrow> world \<Rightarrow> (error + json) \<times> client \<times> world" where
  "get_customers pg pg_size identification =
     make_request ''GET'' ''/v1/customers'' None
       (Some ([(''page'', JInt pg), (''page_size'', JInt pg_size)]
              @ opt_str ''identification'' identification))"

definition get_warehouses :: "client \<Rightarrow> world \<Rightarrow> (error + json) \<times> client \<times> world" where
  "get_warehouses = make_request ''GET'' ''/v1/warehouses'' None None"

definition get_cost_centers :: "client \<Rightarrow> world \<Rightarrow> (error + json) \<times> client \<times> world" where
  "get_cost_centers = make_request ''GET'' ''/v1/cost-centers'' None None"

section \<open>String and calendar functions of the Python library\<close>

text \<open>
  Python strings are taken with their characters among the 256 code points U+0000 to
  U+00FF, which are the characters of the theory's strings. \<^verbatim>\<open>str.strip()\<close> removes leading
  and trailing whitespace: the characters of \<^verbatim>\<open>str.isspace\<close>, which in this range are the ten
  of ASCII, U+0085 and U+00A0.
\<close>

definition py_isspace :: "char \<Rightarrow> bool" where
  "py_isspace c =
     (c \<in> set [CHR 0x09, CHR 0x0A, CHR 0x0B, CHR 0x0C, CHR 0x0D,
               CHR 0x1C, CHR 0x1D, CHR 0x1E, CHR 0x1F, CHR 0x20, CHR 0x85, CHR 0xA0])"

definition py_strip :: "string \<Rightarrow> string" where
  "py_strip s = rev (dropWhile py_isspace (rev (dropWhile py_isspace s)))"

text \<open>
  \<^verbatim>\<open>str.upper()\<close> maps each character to its upper case: a to z and the lower-case letters
  U+00E0 to U+00FE (U+00F7, the division sign, is not one) move to the letter 32 code points
  below, U+00DF becomes the two letters \<^verbatim>\<open>SS\<close>, and every other character stays as it is,
  two apart: the upper case of U+00B5 and of U+00FF is a single character above U+00FF,
  which the strings here cannot hold, and it is left unspecified.
\<close>

definition lower_letters :: string where
  "lower_letters =
     ''abcdefghijklmnopqrstuvwxyz''
     @ [CHR 0xE0, CHR 0xE1, CHR 0xE2, CHR 0xE3, CHR 0xE4, CHR 0xE5,
        CHR 0xE6, CHR 0xE7, CHR 0xE8, CHR 0xE9, CHR 0xEA, CHR 0xEB,
        CHR 0xEC, CHR 0xED, CHR 0xEE, CHR 0xEF, CHR 0xF0, CHR 0xF1,
        CHR 0xF2, CHR 0xF3, CHR 0xF4, CHR 0xF5, CHR 0xF6, CHR 0xF8,
        CHR 0xF9, CHR 0xFA, CHR 0xFB, CHR 0xFC, CHR 0xFD, CHR 0xFE]"

definition upper_letters :: string where
  "upper_letters =
     ''ABCDEFGHIJKLMNOPQRSTUVWXYZ''
     @ [CHR 0xC0, CHR 0xC1, CHR 0xC2, CHR 0xC3, CHR 0xC4, CHR 0xC5,
        CHR 0xC6, CHR 0xC7, CHR 0xC8, CHR 0xC9, CHR 0xCA, CHR 0xCB,
        CHR 0xCC, CHR 0xCD, CHR 0xCE, CHR 0xCF, CHR 0xD0, CHR 0xD1,
        CHR 0xD2, CHR 0xD3, CHR 0xD4, CHR 0xD5, CHR 0xD6, CHR 0xD8,
        CHR 0xD9, CHR 0xDA, CHR 0xDB, CHR 0xDC, CHR 0xDD, CHR 0xDE]"

definition py_upper_char :: "char \<Rightarrow> string" where
  "py_upper_char c =
     (case map_of (zip lower_letters upper_letters) c of
        Some u \<Rightarrow> [u]
      | None \<Rightarrow>
          if c = CHR 0xDF then ''SS''
          else if c = CHR 0xB5 \<or> c = CHR 0xFF then [undefined]
          else [c])"

definition py_upper :: "string \<Rightarrow> string" where
  "py_upper s = concat (map py_upper_char s)"

text \<open>
  The calendar date of a day number (day 1 is 0001-01-01), as \<^verbatim>\<open>datetime\<close> computes it in
  the proleptic Gregorian calendar (\<^verbatim>\<open>_ord2ymd\<close> of the standard library).
\<close>

definition DAYS_IN_MONTH :: "int list" where
  "DAYS_IN_MONTH = [-1, 31, 28, 31, 30, 31, 30, 31, 31, 30, 31, 30, 31]"

definition DAYS_BEFORE_MONTH :: "int list" where
  "DAYS_BEFORE_MONTH = [-1, 0, 31, 59, 90, 120, 151, 181, 212, 243, 273, 304, 334]"

definition ord2ymd :: "int \<Rightarrow> int \<times> int \<times> int" where
  "ord2ymd ordinal =
     (let n0 = ordinal - 1;
          n400 = n0 div 146097; n1 = n0 mod 146097;
          n100 = n1 div 36524; n2 = n1 mod 36524;
          n4 = n2 div 1461; n3 = n2 mod 1461;
          ny = n3 div 365; n = n3 mod 365;
          year = n400 * 400 + 1 + n100 * 100 + n4 * 4 + ny
      in if ny = 4 \<or> n100 = 4 then (year - 1, 12, 31)
         else
           (let leapyear = (ny = 3 \<and> (n4 \<noteq> 24 \<or> n100 = 3));
                month = (n + 50) div 32;
                preceding = DAYS_BEFORE_MONTH ! nat month
                            + (if month > 2 \<and> leapyear then 1 else 0)
            in if preceding > n then
                 (let month' = month - 1;
                      preceding' = preceding
                                   - (DAYS_IN_MONTH ! nat month'
                                      + (if month' = 2 \<and> leapyear then 1 else 0))
                  in (year, month', n - preceding' + 1))
               else (year, month, n - preceding + 1)))"

definition zero_pad :: "nat \<Rightarrow> string \<Rightarrow> string" where
  "zero_pad k s = replicate (k - length s) (CHR ''0'') @ s"

text \<open>\<^verbatim>\<open>strftime("%Y-%m-%d")\<close> of a datetime, for the years 1000 to 9999.\<close>

definition strftime_ymd :: "datetime \<Rightarrow> string" where
  "strftime_ymd t =
     (case ord2ymd (t div 86400000000 + 1) of
        (y, m, d) \<Rightarrow>
          zero_pad 4 (str_nat (nat y)) @ ''-'' @ zero_pad 2 (str_nat (nat m))
          @ ''-'' @ zero_pad 2 (str_nat (nat d)))"

text \<open>
  \<^verbatim>\<open>repr\<close> of a list of strings that hold no quote, backslash or non-printing character,
  such as the configuration keys: each string between single quotes.
\<close>

fun join_comma :: "string list \<Rightarrow> string" where
  "join_comma [] = []"
| "join_comma [x] = x"
| "join_comma (x # y # ys) = x @ '', '' @ join_comma (y # ys)"

definition repr_keys :: "string list \<Rightarrow> string" where
  "repr_keys ks = ''['' @ join_comma (map (\<lambda>k. [CHR 0x27] @ k @ [CHR 0x27]) ks) @ '']''"

section \<open>Invoicing for the parking service (parking\_invoice.py)\<close>

text \<open>
  \<^verbatim>\<open>SIIGO_CONFIG\<close> maps each key to an identifier or to \<^verbatim>\<open>None\<close>. The credentials come from the
  module \<^verbatim>\<open>config\<close>, which is a parameter here.
\<close>

type_synonym config = "string \<Rightarrow> int option"

definition SIIGO_CONFIG :: config where
  "SIIGO_CONFIG = (\<lambda>k. None)"

record settings =
  SIIGO_USERNAME :: string
  SIIGO_ACCESS_KEY :: string
  SIIGO_APP_NAME :: string

definition ITEM_PARQUEADERO :: "(string \<times> json) list" where
  "ITEM_PARQUEADERO =
     [(''code'', JStr ''PARQUEADERO''), (''description'', JStr ''Servicio de Parqueadero'')]"

definition config_value :: "config \<Rightarrow> string \<Rightarrow> json" where
  "config_value cfg k = (case cfg k of None \<Rightarrow> JNull | Some i \<Rightarrow> JInt i)"

definition missing_keys :: "config \<Rightarrow> string list" where
  "missing_keys cfg =
     filter (\<lambda>k. \<not> py_truthy (config_value cfg k))
       [''document_type_id'', ''seller_id'', ''payment_type_id'']"

text \<open>\<^verbatim>\<open>_validar_config\<close>\<close>

definition validar_config :: "config \<Rightarrow> error + unit" where
  "validar_config cfg =
     (if missing_keys cfg \<noteq> [] then
        Inl (ValueError (''Faltan IDs de configuraci'' @ [CHR 0xF3] @ ''n: ''
                         @ repr_keys (missing_keys cfg)
                         @ ''. Ejecuta get_siigo_ids() para obtenerlos.''))
      else Inr ())"

definition configurar_siigo :: "int \<Rightarrow> int \<Rightarrow> int \<Rightarrow> int option \<Rightarrow> config \<Rightarrow> config" where
  "configurar_siigo document_type_id seller_id payment_type_id tax_id cfg =
     (let cfg1 = cfg(''document_type_id'' := Some document_type_id,
                     ''seller_id'' := Some seller_id,
                     ''payment_type_id'' := Some payment_type_id)
      in if tax_id \<noteq> None \<and> tax_id \<noteq> Some 0 then cfg1(''tax_id'' := tax_id) else cfg1)"

text \<open>The dict \<^verbatim>\<open>invoice_data\<close> that \<^verbatim>\<open>emit_electronic_invoice\<close> builds.\<close>

definition invoice_data :: "config \<Rightarrow> string \<Rightarrow> string \<Rightarrow> string \<Rightarrow> string \<Rightarrow> int \<Rightarrow> json" where
  "invoice_data cfg today placa id_number full_name total_amount_cop =
     JObj
      [(''document'', JObj [(''id'', config_value cfg ''document_type_id'')]),
       (''date'', JStr today),
       (''customer'', JObj [(''identification'', JStr id_number), (''branch_office'', JInt 0)]),
       (''seller'', config_value cfg ''seller_id''),
       (''items'', JList
          [JObj [(''code'', dict_get ITEM_PARQUEADERO ''code''),
                 (''description'', dict_get ITEM_PARQUEADERO ''description''),
                 (''quantity'', JInt 1),
                 (''price'', JInt total_amount_cop),
                 (''discount'', JInt 0),
                 (''taxes'',
                    if py_truthy (config_value cfg ''tax_id'')
                    then JList [JObj [(''id'', config_value cfg ''tax_id'')]]
                    else JList [])]]),
       (''payments'', JList
          [JObj [(''id'', config_value cfg ''payment_type_id''),
                 (''value'', JInt total_amount_cop),
                 (''due_date'', JStr today)]]),
       (''observations'', JStr (''Placa: '' @ placa @ '' - Cliente: '' @ full_name))]"

text \<open>\<^verbatim>\<open>x or ""\<close> and \<^verbatim>\<open>int(x or 0)\<close> for an argument that may be \<^verbatim>\<open>None\<close>.\<close>

definition or_empty :: "string option \<Rightarrow> string" where
  "or_empty x = (case x of None \<Rightarrow> [] | Some s \<Rightarrow> s)"

definition or_zero :: "int option \<Rightarrow> int" where
  "or_zero x = (case x of None \<Rightarrow> 0 | Some n \<Rightarrow> n)"

text \<open>
  \<^verbatim>\<open>emit_electronic_invoice\<close>. The client is created in the call, so its token cache starts
  empty. The subscript \<^verbatim>\<open>result["id"]\<close> is evaluated inside the \<^verbatim>\<open>try\<close>, whose handler takes
  every exception.
\<close>

definition emit_electronic_invoice ::
  "string option \<Rightarrow> string option \<Rightarrow> string option \<Rightarrow> string option \<Rightarrow> int option
   \<Rightarrow> config \<Rightarrow> settings \<Rightarrow> world \<Rightarrow> (error + json) \<times> world" where
  "emit_electronic_invoice placa0 id_number0 full_name0 email0 total_amount_cop0 cfg st w =
     (let placa = py_upper (py_strip (or_empty placa0));
          id_number = py_strip (or_empty id_number0);
          full_name = py_strip (or_empty full_name0);
          email = py_strip (or_empty email0);
          total_amount_cop = or_zero total_amount_cop0
      in if placa = [] then
           (Inl (ValueError (''Factura electr'' @ [CHR 0xF3] @ ''nica requiere placa del veh''
                             @ [CHR 0xED] @ ''culo'')), w)
         else if id_number = [] then
           (Inl (ValueError (''Factura electr'' @ [CHR 0xF3] @ ''nica requiere NIT o c''
                             @ [CHR 0xE9] @ ''dula'')), w)
         else if full_name = [] then
           (Inl (ValueError (''Factura electr'' @ [CHR 0xF3] @ ''nica requiere nombre o raz''
                             @ [CHR 0xF3] @ ''n social'')), w)
         else if email = [] then
           (Inl (ValueError (''Factura electr'' @ [CHR 0xF3] @ ''nica requiere correo electr''
                             @ [CHR 0xF3] @ ''nico'')), w)
         else if total_amount_cop \<le> 0 then
           (Inl (ValueError (''Monto total inv'' @ [CHR 0xE1] @ ''lido para facturaci''
                             @ [CHR 0xF3] @ ''n'')), w)
         else
           (case validar_config cfg of
              Inl e \<Rightarrow> (Inl e, w)
            | Inr _ \<Rightarrow>
               (let client = SiigoClient (SIIGO_USERNAME st) (SIIGO_ACCESS_KEY st) (SIIGO_APP_NAME st)
                in case datetime_now w of
                     (now, w1) \<Rightarrow>
                       (let today = strftime_ymd now
                        in case create_invoice
                                  (invoice_data cfg today placa id_number full_name total_amount_cop)
                                  client w1 of
                             (Inl e, c1, w2) \<Rightarrow> (Inl e, w2)
                           | (Inr result, c1, w2) \<Rightarrow>
                               if email \<noteq> [] then
                                 (case py_getitem result ''id'' of
                                    Inl _ \<Rightarrow> (Inr result, w2)
                                  | Inr invoice_id \<Rightarrow>
                                      (case send_invoice_email (py_str invoice_id) email None c1 w2 of
                                         (_, c2, w3) \<Rightarrow> (Inr result, w3)))
                               else (Inr result, w2)))))"

section \<open>Notions used in the statements\<close>

text \<open>
  A refresh is due at the time \<open>now\<close> when no token is cached (the token slot holds
  \<^verbatim>\<open>None\<close> or another falsy value such as the empty string, or no expiry is recorded) or
  \<open>now\<close> is at or past the cached expiry minus one hour.
\<close>

definition refresh_due :: "client \<Rightarrow> datetime \<Rightarrow> bool" where
  "refresh_due c now =
     (case token_expiry c of
        None \<Rightarrow> True
      | Some e \<Rightarrow> \<not> py_truthy (access_token c) \<or> now \<ge> e - hours 1)"

text \<open>Reading a nested value: a path of dict keys and list positions.\<close>

datatype step = Key string | Idx nat

fun json_at :: "json \<Rightarrow> step list \<Rightarrow> json option" where
  "json_at j [] = Some j"
| "json_at (JObj kvs) (Key k # p) = (case map_of kvs k of None \<Rightarrow> None | Some v \<Rightarrow> json_at v p)"
| "json_at (JList xs) (Idx i # p) = (if i < length xs then json_at (xs ! i) p else None)"
| "json_at _ _ = None"

text \<open>
  Worlds for concrete runs: the \<open>k\<close>-th call of the HTTP library gets the \<open>k\<close>-th outcome
  of a script (a refused connection once the script is used up), the \<open>k\<close>-th reading of
  the clock the \<open>k\<close>-th entry of a list.
\<close>

definition scripted_net :: "net_outcome list \<Rightarrow> request list \<Rightarrow> net_outcome" where
  "scripted_net outs lg =
     (if 0 < length lg \<and> length lg \<le> length outs then outs ! (length lg - 1)
      else ConnectionFailed ''connection refused'')"

definition test_world :: "net_outcome list \<Rightarrow> datetime list \<Rightarrow> world" where
  "test_world outs readings =
     \<lparr>clock = (\<lambda>k. if k < length readings then readings ! k else 0), reads = 0,
      net = scripted_net outs, sent = []\<rparr>"

definition http_response :: "int \<Rightarrow> string \<Rightarrow> string + json \<Rightarrow> net_outcome" where
  "http_response st body j =
     Responded \<lparr>status_code = st, resp_content = body, resp_text = body, resp_json = j\<rparr>"

definition token_response :: net_outcome where
  "token_response =
     http_response 200 ''{\"access_token\": \"tok\"}'' (Inr (JObj [(''access_token'', JStr ''tok'')]))"

definition empty_object_response :: net_outcome where
  "empty_object_response = http_response 200 ''{}'' (Inr (JObj []))"

definition logged_in :: client where
  "logged_in = (SiigoClient ''user'' ''key'' ''MyApp'')
                 \<lparr>access_token := JStr ''tok'', token_expiry := Some 63846144000000000\<rparr>"

text \<open>
  What an optional string or list of strings contributes to a request: nothing when it is
  \<^verbatim>\<open>None\<close> or empty, its value otherwise. \<open>optional_entry\<close> is the entry that a dict receives
  for it.
\<close>

definition forwarded_str :: "string option \<Rightarrow> json option" where
  "forwarded_str v = (case v of None \<Rightarrow> None | Some s \<Rightarrow> if s = [] then None else Some (JStr s))"

definition forwarded_list :: "string list option \<Rightarrow> json option" where
  "forwarded_list v = (case v of None \<Rightarrow> None | Some xs \<Rightarrow> if xs = [] then None else Some (JList (map JStr xs)))"

definition optional_entry :: "string \<Rightarrow> json option \<Rightarrow> (string \<times> json) list" where
  "optional_entry k v = (case v of None \<Rightarrow> [] | Some j \<Rightarrow> [(k, j)])"

text \<open>
  A run of \<^verbatim>\<open>emit_electronic_invoice\<close>: the credentials, the configuration after
  \<^verbatim>\<open>configurar_siigo(24446, 629, 5636)\<close>, and the response to the creation of an invoice.
\<close>

definition created_response :: net_outcome where
  "created_response = http_response 201 ''{\"id\": \"inv-1\"}'' (Inr (JObj [(''id'', JStr ''inv-1'')]))"

definition example_settings :: settings where
  "example_settings =
     \<lparr>SIIGO_USERNAME = ''user'', SIIGO_ACCESS_KEY = ''key'', SIIGO_APP_NAME = ''MyApp''\<rparr>"

definition example_config :: config where
  "example_config = configurar_siigo 24446 629 5636 None SIIGO_CONFIG"
section \<open>Authentication and the token cache\<close>

lemma test_world_sel:
  "reads (test_world outs rs) = 0"
  "sent (test_world outs rs) = []"
  "net (test_world outs rs) = scripted_net outs"
  "clock (test_world outs rs) k = (if k < length rs then rs ! k else 0)"
  by (simp_all add: test_world_def)

lemma authenticate_http_error:
  "net w (sent w @ [auth_request c]) = Responded r \<Longrightarrow> is_http_error r \<Longrightarrow>
   authenticate c w =
     (Inl (SiigoAuthError (''Authentication failed: '' @ str_int (status_code r) @ '' - '' @ resp_text r)),
      c, w\<lparr>sent := sent w @ [auth_request c]\<rparr>)"
  by (simp add: authenticate_def http_send_def)

lemma authenticate_transport_error:
  "net w (sent w @ [auth_request c]) = ConnectionFailed m \<Longrightarrow>
   authenticate c w =
     (Inl (SiigoAuthError (''Connection error: '' @ m)), c, w\<lparr>sent := sent w @ [auth_request c]\<rparr>)"
  by (simp add: authenticate_def http_send_def)

lemma authenticate_ok:
  "net w (sent w @ [auth_request c]) = Responded r \<Longrightarrow> \<not> is_http_error r \<Longrightarrow>
   resp_json r = Inr (JObj kvs) \<Longrightarrow>
   authenticate c w =
     (Inr (), c\<lparr>access_token := dict_get kvs ''access_token'',
                token_expiry := Some (clock w (reads w) + hours 24)\<rparr>,
      w\<lparr>sent := sent w @ [auth_request c], reads := Suc (reads w)\<rparr>)"
  by (simp add: authenticate_def http_send_def datetime_now_def)

lemma authenticate_sent:
  "sent (snd (snd (authenticate c w))) = sent w @ [auth_request c]"
  by (simp add: authenticate_def http_send_def datetime_now_def
           split: net_outcome.split sum.split json.split)

lemma needs_token_refresh_due:
  "fst (needs_token_refresh c w) = refresh_due c (clock w (reads w))"
  by (simp add: needs_token_refresh_def refresh_due_def datetime_now_def split: option.split)

lemma needs_token_refresh_sent:
  "sent (snd (needs_token_refresh c w)) = sent w"
  by (simp add: needs_token_refresh_def datetime_now_def)

lemma needs_token_refresh_net:
  "net (snd (needs_token_refresh c w)) = net w"
  by (simp add: needs_token_refresh_def datetime_now_def)

lemma get_auth_headers_not_due:
  "\<not> refresh_due c (clock w (reads w)) \<Longrightarrow>
   get_auth_headers c w = (Inr (auth_headers c), c, w\<lparr>reads := Suc (reads w)\<rparr>)"
  by (auto simp: get_auth_headers_def needs_token_refresh_def refresh_due_def datetime_now_def
           split: option.splits)

lemma get_auth_headers_due:
  "refresh_due c (clock w (reads w)) \<Longrightarrow>
   get_auth_headers c w =
     (case authenticate c (snd (needs_token_refresh c w)) of
        (Inl e, c', w2) \<Rightarrow> (Inl e, c', w2)
      | (Inr u, c', w2) \<Rightarrow> (Inr (auth_headers c'), c', w2))"
  using needs_token_refresh_due [of c w]
  by (cases "needs_token_refresh c w") (simp add: get_auth_headers_def)

lemma get_auth_headers_sent:
  "sent (snd (snd (get_auth_headers c w))) =
     sent w @ (if refresh_due c (clock w (reads w)) then [auth_request c] else [])"
proof (cases "refresh_due c (clock w (reads w))")
  case True
  obtain x c' w2 where a: "authenticate c (snd (needs_token_refresh c w)) = (x, c', w2)"
    by (cases "authenticate c (snd (needs_token_refresh c w))") auto
  have "sent w2 = sent w @ [auth_request c]"
    using authenticate_sent [of c "snd (needs_token_refresh c w)"] a
    by (simp add: needs_token_refresh_sent)
  then show ?thesis
    using True a by (simp add: get_auth_headers_due split: sum.split)
next
  case False
  then show ?thesis by (simp add: get_auth_headers_not_due)
qed

lemma get_auth_headers_ok:
  assumes "refresh_due c (clock w (reads w))"
    and "net w (sent w @ [auth_request c]) = Responded r" "\<not> is_http_error r"
    and "resp_json r = Inr (JObj kvs)"
  shows "get_auth_headers c w =
           (let w0 = snd (needs_token_refresh c w);
                c' = c\<lparr>access_token := dict_get kvs ''access_token'',
                        token_expiry := Some (clock w (reads w0) + hours 24)\<rparr>
            in (Inr (auth_headers c'), c',
                w0\<lparr>sent := sent w @ [auth_request c], reads := Suc (reads w0)\<rparr>))"
proof -
  let ?w0 = "snd (needs_token_refresh c w)"
  have n: "net ?w0 (sent ?w0 @ [auth_request c]) = Responded r"
    using assms(2) by (simp add: needs_token_refresh_net needs_token_refresh_sent)
  have ck: "clock ?w0 = clock w"
    by (simp add: needs_token_refresh_def datetime_now_def)
  show ?thesis
    using authenticate_ok [OF n assms(3) assms(4)] assms(1)
    by (simp add: get_auth_headers_due Let_def ck needs_token_refresh_sent)
qed

lemma refresh_due_fresh: "refresh_due (SiigoClient u k a) now"
  by (simp add: refresh_due_def SiigoClient_def)

lemma needs_token_refresh_fresh:
  "needs_token_refresh (SiigoClient u k a) w = (True, w)"
  by (simp add: needs_token_refresh_def SiigoClient_def)

text \<open>
  C3 (as amended). An authentication attempt that fails, by an HTTP error status or by a
  transport error, raises \<open>SiigoAuthError\<close>: with the status code and the response text
  in its message when a response came, with the text of the transport error when none
  came. Exactly one call has been issued (no retry), and the client, its cached token
  and expiry included, is as it was before the attempt.
\<close>

theorem authenticate_failure_atomic:
  assumes "net w (sent w @ [auth_request c]) = out"
    and "(\<exists>m. out = ConnectionFailed m) \<or> (\<exists>r. out = Responded r \<and> is_http_error r)"
  shows "authenticate c w =
           (Inl (SiigoAuthError
                   (case out of
                      ConnectionFailed m \<Rightarrow> ''Connection error: '' @ m
                    | Responded r \<Rightarrow> ''Authentication failed: '' @ str_int (status_code r)
                                      @ '' - '' @ resp_text r)),
            c, w\<lparr>sent := sent w @ [auth_request c]\<rparr>)"
  using assms authenticate_http_error authenticate_transport_error by auto

text \<open>
  A 401 on a new client: the error carries 401 and the response text, and the token
  cache is still empty.
\<close>

theorem authenticate_failure_atomic_witness:
  "authenticate (SiigoClient ''user'' ''key'' ''MyApp'')
      (test_world [http_response 401 ''Unauthorized'' (Inl ''Expecting value'')] [])
   = (Inl (SiigoAuthError ''Authentication failed: 401 - Unauthorized''),
      \<lparr>username = ''user'', access_key = ''key'', application_name = ''MyApp'',
       access_token = JNull, token_expiry = None\<rparr>,
      (test_world [http_response 401 ''Unauthorized'' (Inl ''Expecting value'')] [])
        \<lparr>sent := [auth_request (SiigoClient ''user'' ''key'' ''MyApp'')]\<rparr>)"
proof -
  let ?c = "SiigoClient ''user'' ''key'' ''MyApp''"
  let ?o = "http_response 401 ''Unauthorized'' (Inl ''Expecting value'')"
  let ?w = "test_world [?o] []"
  have h1: "net ?w (sent ?w @ [auth_request ?c]) = ?o"
    by (simp add: test_world_def scripted_net_def)
  have h2: "(\<exists>m. ?o = ConnectionFailed m) \<or> (\<exists>r. ?o = Responded r \<and> is_http_error r)"
    by (simp add: http_response_def is_http_error_def)
  have s: "str_int 401 = ''401''"
    by (simp add: str_int_def str_nat.simps)
  show ?thesis
    using authenticate_failure_atomic [OF h1 h2]
    by (simp add: http_response_def s SiigoClient_def test_world_def)
qed

text \<open>
  C3 as stated fails on a transport error: no response has come, and the error raised
  carries neither a status code nor a response text.
\<close>

theorem authenticate_transport_error_counterexample:
  "fst (authenticate (SiigoClient ''user'' ''key'' ''MyApp'')
          (test_world [ConnectionFailed ''timed out''] []))
   = Inl (SiigoAuthError ''Connection error: timed out'')"
  by (simp add: authenticate_def http_send_def test_world_def scripted_net_def)




text \<open>
  C10. When the authentication endpoint answers with a success status and a JSON object
  without the key \<^verbatim>\<open>access_token\<close>, \<open>authenticate\<close> returns normally and caches \<^verbatim>\<open>None\<close> with
  the expiry 24 hours after the clock reading; the headers of the call that triggered it
  carry the Authorization value \<^verbatim>\<open>Bearer None\<close>; and every later call of
  \<open>get_auth_headers\<close> authenticates again, whatever the clock and the expiry.
\<close>

theorem missing_access_token:
  assumes "net w (sent w @ [auth_request c]) = Responded r"
    and "\<not> is_http_error r"
    and "resp_json r = Inr (JObj kvs)"
    and "map_of kvs ''access_token'' = None"
  shows "authenticate c w =
           (Inr (), c\<lparr>access_token := JNull, token_expiry := Some (clock w (reads w) + hours 24)\<rparr>,
            w\<lparr>sent := sent w @ [auth_request c], reads := Suc (reads w)\<rparr>)
       \<and> (refresh_due c (clock w (reads w)) \<longrightarrow>
            fst (get_auth_headers c w) =
              Inr [(''Authorization'', ''Bearer None''), (''Content-Type'', ''application/json''),
                   (''Partner-Id'', application_name c)])
       \<and> sent (snd (snd (get_auth_headers (c\<lparr>access_token := JNull, token_expiry := Some e\<rparr>) w2)))
           = sent w2 @ [auth_request (c\<lparr>access_token := JNull, token_expiry := Some e\<rparr>)]"
proof -
  have g: "dict_get kvs ''access_token'' = JNull"
    using assms(4) by (simp add: dict_get_def)
  have a: "authenticate c w =
           (Inr (), c\<lparr>access_token := JNull, token_expiry := Some (clock w (reads w) + hours 24)\<rparr>,
            w\<lparr>sent := sent w @ [auth_request c], reads := Suc (reads w)\<rparr>)"
    using authenticate_ok [OF assms(1) assms(2) assms(3)] by (simp add: g)
  have b: "fst (get_auth_headers c w) =
              Inr [(''Authorization'', ''Bearer None''), (''Content-Type'', ''application/json''),
                   (''Partner-Id'', application_name c)]"
    if "refresh_due c (clock w (reads w))"
    using get_auth_headers_ok [OF that assms(1) assms(2) assms(3)]
    by (simp add: Let_def g auth_headers_def)
  have d: "refresh_due (c\<lparr>access_token := JNull, token_expiry := Some e\<rparr>) now" for now
    by (simp add: refresh_due_def)
  show ?thesis
    using a b by (simp add: get_auth_headers_sent d)
qed

theorem missing_access_token_witness:
  "get_auth_headers (SiigoClient ''user'' ''key'' ''MyApp'')
      (test_world [empty_object_response] [63846057600000000])
    = (Inr [(''Authorization'', ''Bearer None''), (''Content-Type'', ''application/json''),
            (''Partner-Id'', ''MyApp'')],
       \<lparr>username = ''user'', access_key = ''key'', application_name = ''MyApp'',
        access_token = JNull, token_expiry = Some 63846144000000000\<rparr>,
       (test_world [empty_object_response] [63846057600000000])
         \<lparr>sent := [auth_request (SiigoClient ''user'' ''key'' ''MyApp'')], reads := 1\<rparr>)
   \<and> sent (snd (snd (get_auth_headers
             \<lparr>username = ''user'', access_key = ''key'', application_name = ''MyApp'',
              access_token = JNull, token_expiry = Some 63846144000000000\<rparr>
             (test_world [empty_object_response] [63846057600000001]))))
      = [auth_request (SiigoClient ''user'' ''key'' ''MyApp'')]"
proof -
  let ?c0 = "SiigoClient ''user'' ''key'' ''MyApp''"
  let ?w = "test_world [empty_object_response] [63846057600000000]"
  let ?r = "\<lparr>status_code = 200, resp_content = ''{}'', resp_text = ''{}'',
             resp_json = Inr (JObj [])\<rparr>"
  have h1: "net ?w (sent ?w @ [auth_request ?c0]) = Responded ?r"
    by (simp add: test_world_def scripted_net_def empty_object_response_def http_response_def)
  have h2: "\<not> is_http_error ?r"
    by (simp add: is_http_error_def)
  have h3: "resp_json ?r = Inr (JObj [])"
    by simp
  have h4: "map_of ([] :: (string \<times> json) list) ''access_token'' = None"
    by simp
  have n: "needs_token_refresh ?c0 ?w = (True, ?w)"
    by (simp add: needs_token_refresh_def SiigoClient_def)
  let ?c1 = "\<lparr>username = ''user'', access_key = ''key'', application_name = ''MyApp'',
              access_token = JNull, token_expiry = Some 63846144000000000\<rparr>"
  note m = missing_access_token [OF h1 h2 h3 h4, where e = 63846144000000000
        and ?w2.0 = "test_world [empty_object_response] [63846057600000001]"]
  have u: "?c0\<lparr>access_token := JNull, token_expiry := Some 63846144000000000\<rparr> = ?c1"
    by (simp add: SiigoClient_def)
  have a: "authenticate ?c0 ?w =
             (Inr (), ?c1, ?w\<lparr>sent := [auth_request ?c0], reads := 1\<rparr>)"
    using m by (simp add: SiigoClient_def test_world_def hours_def)
  have first: "get_auth_headers ?c0 ?w =
      (Inr [(''Authorization'', ''Bearer None''), (''Content-Type'', ''application/json''),
            (''Partner-Id'', ''MyApp'')], ?c1, ?w\<lparr>sent := [auth_request ?c0], reads := 1\<rparr>)"
    by (simp add: get_auth_headers_def n a auth_headers_def)
  have r: "auth_request ?c1 = auth_request ?c0"
    by (simp add: auth_request_def SiigoClient_def)
  have later: "sent (snd (snd (get_auth_headers ?c1
                 (test_world [empty_object_response] [63846057600000001]))))
               = [auth_request ?c0]"
    using m unfolding u r by (simp add: test_world_def)
  show ?thesis
    using first later by simp
qed

section \<open>The request dispatcher and the typed operations\<close>

lemma make_request_with_headers:
  assumes "get_auth_headers c w = (Inr headers, c1, w1)"
  shows "make_request method endpoint data params c w =
     (let rq = \<lparr>req_method = method, req_url = BASE_URL @ endpoint,
                 req_headers = headers, req_json = data, req_params = params\<rparr>;
          w2 = w1\<lparr>sent := sent w1 @ [rq]\<rparr>
      in case net w1 (sent w1 @ [rq]) of
           ConnectionFailed m \<Rightarrow>
             (Inl (SiigoAPIError (''Connection error: '' @ m) None None), c1, w2)
         | Responded r \<Rightarrow>
             if is_http_error r then
               (Inl (SiigoAPIError
                       (''API request failed: '' @ str_int (status_code r) @ '' - '' @ resp_text r)
                       (Some (status_code r))
                       (Some (case resp_json r of Inl _ \<Rightarrow> JObj [] | Inr j \<Rightarrow> j))),
                c1, w2)
             else if resp_content r \<noteq> [] then
               (case resp_json r of
                  Inl m \<Rightarrow> (Inl (SiigoAPIError (''Connection error: '' @ m) None None), c1, w2)
                | Inr j \<Rightarrow> (Inr j, c1, w2))
             else (Inr (JObj []), c1, w2))"
  using assms
  by (simp add: make_request_def http_send_def Let_def split: net_outcome.split)

lemma make_request_auth_failed:
  "get_auth_headers c w = (Inl e, c1, w1) \<Longrightarrow>
   make_request method endpoint data params c w = (Inl e, c1, w1)"
  by (simp add: make_request_def)

lemma get_auth_headers_new_client:
  assumes "net w (sent w @ [auth_request (SiigoClient u k a)]) = Responded r"
    and "\<not> is_http_error r" and "resp_json r = Inr (JObj kvs)"
  shows "get_auth_headers (SiigoClient u k a) w =
           (Inr (auth_headers ((SiigoClient u k a)\<lparr>access_token := dict_get kvs ''access_token'',
                      token_expiry := Some (clock w (reads w) + hours 24)\<rparr>)),
            (SiigoClient u k a)\<lparr>access_token := dict_get kvs ''access_token'',
                      token_expiry := Some (clock w (reads w) + hours 24)\<rparr>,
            w\<lparr>sent := sent w @ [auth_request (SiigoClient u k a)], reads := Suc (reads w)\<rparr>)"
  using get_auth_headers_ok [OF refresh_due_fresh assms]
  by (simp add: Let_def needs_token_refresh_fresh)

lemma get_auth_headers_example:
  "get_auth_headers (SiigoClient ''user'' ''key'' ''MyApp'')
     (test_world (token_response # outs) [63846057600000000]) =
   (Inr (auth_headers logged_in), logged_in,
    (test_world (token_response # outs) [63846057600000000])
      \<lparr>sent := [auth_request (SiigoClient ''user'' ''key'' ''MyApp'')], reads := 1\<rparr>)"
proof -
  let ?c0 = "SiigoClient ''user'' ''key'' ''MyApp''"
  let ?w = "test_world (token_response # outs) [63846057600000000]"
  let ?r = "\<lparr>status_code = 200, resp_content = ''{\"access_token\": \"tok\"}'',
             resp_text = ''{\"access_token\": \"tok\"}'',
             resp_json = Inr (JObj [(''access_token'', JStr ''tok'')])\<rparr>"
  have h1: "net ?w (sent ?w @ [auth_request ?c0]) = Responded ?r"
    by (simp add: test_world_sel scripted_net_def token_response_def http_response_def)
  have h2: "\<not> is_http_error ?r"
    by (simp add: is_http_error_def)
  have h3: "resp_json ?r = Inr (JObj [(''access_token'', JStr ''tok'')])"
    by simp
  show ?thesis
    using get_auth_headers_new_client [OF h1 h2 h3]
    by (simp add: test_world_sel dict_get_def hours_def logged_in_def)
qed

text \<open>
  C2. Once the headers are obtained, \<open>make_request\<close> issues the request. When the
  response has an error status, it raises \<open>SiigoAPIError\<close> with the status code and the
  parsed body of the response, the empty dict when the body does not parse. When no
  response came (a transport-level error), it raises \<open>SiigoAPIError\<close> with no status code
  and no body.
\<close>

theorem make_request_error_translation:
  assumes "get_auth_headers c w = (Inr headers, c1, w1)"
    and "net w1 (sent w1 @ [\<lparr>req_method = verb, req_url = BASE_URL @ endpoint,
                              req_headers = headers, req_json = data, req_params = params\<rparr>])
         = out"
  shows "(\<forall>r. out = Responded r \<and> is_http_error r \<longrightarrow>
            fst (make_request verb endpoint data params c w) =
              Inl (SiigoAPIError
                     (''API request failed: '' @ str_int (status_code r) @ '' - '' @ resp_text r)
                     (Some (status_code r))
                     (Some (case resp_json r of Inl _ \<Rightarrow> JObj [] | Inr j \<Rightarrow> j))))
       \<and> (\<forall>m. out = ConnectionFailed m \<longrightarrow>
            fst (make_request verb endpoint data params c w) =
              Inl (SiigoAPIError (''Connection error: '' @ m) None None))"
  using assms by (auto simp: make_request_with_headers Let_def)

theorem make_request_error_translation_witness:
  "fst (make_request ''GET'' ''/v1/taxes'' None None (SiigoClient ''user'' ''key'' ''MyApp'')
          (test_world [token_response,
                       http_response 500 ''Internal Server Error'' (Inl ''Expecting value'')]
                      [63846057600000000]))
     = Inl (SiigoAPIError ''API request failed: 500 - Internal Server Error'' (Some 500)
              (Some (JObj [])))
   \<and> fst (make_request ''GET'' ''/v1/taxes'' None None (SiigoClient ''user'' ''key'' ''MyApp'')
          (test_world [token_response,
                       http_response 404 ''{\"Status\": 404}'' (Inr (JObj [(''Status'', JInt 404)]))]
                      [63846057600000000]))
     = Inl (SiigoAPIError ''API request failed: 404 - {\"Status\": 404}'' (Some 404)
              (Some (JObj [(''Status'', JInt 404)])))
   \<and> fst (make_request ''GET'' ''/v1/taxes'' None None (SiigoClient ''user'' ''key'' ''MyApp'')
          (test_world [token_response, ConnectionFailed ''timed out''] [63846057600000000]))
     = Inl (SiigoAPIError ''Connection error: timed out'' None None)"
proof -
  have s: "str_int 500 = ''500''" "str_int 404 = ''404''"
    by (simp_all add: str_int_def str_nat.simps)
  have a: "fst (make_request ''GET'' ''/v1/taxes'' None None (SiigoClient ''user'' ''key'' ''MyApp'')
          (test_world [token_response,
                       http_response 500 ''Internal Server Error'' (Inl ''Expecting value'')]
                      [63846057600000000]))
     = Inl (SiigoAPIError ''API request failed: 500 - Internal Server Error'' (Some 500)
              (Some (JObj [])))"
    using make_request_error_translation [OF get_auth_headers_example [of "[http_response 500 ''Internal Server Error'' (Inl ''Expecting value'')]"] refl,
            where verb = "''GET''" and endpoint = "''/v1/taxes''" and data = None and params = None]
    by (simp add: test_world_sel scripted_net_def http_response_def is_http_error_def s)
  have b: "fst (make_request ''GET'' ''/v1/taxes'' None None (SiigoClient ''user'' ''key'' ''MyApp'')
          (test_world [token_response,
                       http_response 404 ''{\"Status\": 404}'' (Inr (JObj [(''Status'', JInt 404)]))]
                      [63846057600000000]))
     = Inl (SiigoAPIError ''API request failed: 404 - {\"Status\": 404}'' (Some 404)
              (Some (JObj [(''Status'', JInt 404)])))"
    using make_request_error_translation [OF get_auth_headers_example [of "[http_response 404 ''{\"Status\": 404}'' (Inr (JObj [(''Status'', JInt 404)]))]"] refl,
            where verb = "''GET''" and endpoint = "''/v1/taxes''" and data = None and params = None]
    by (simp add: test_world_sel scripted_net_def http_response_def is_http_error_def s)
  have c: "fst (make_request ''GET'' ''/v1/taxes'' None None (SiigoClient ''user'' ''key'' ''MyApp'')
          (test_world [token_response, ConnectionFailed ''timed out''] [63846057600000000]))
     = Inl (SiigoAPIError ''Connection error: timed out'' None None)"
    using make_request_error_translation [OF get_auth_headers_example [of "[ConnectionFailed ''timed out'']"] refl,
            where verb = "''GET''" and endpoint = "''/v1/taxes''" and data = None and params = None]
    by (simp add: test_world_sel scripted_net_def)
  show ?thesis using a b c by simp
qed

lemma opt_str_entry: "opt_str k v = optional_entry k (forwarded_str v)"
  by (simp add: opt_str_def forwarded_str_def optional_entry_def split: option.split)

lemma opt_int_entry:
  "opt_int k v =
     optional_entry k (case v of None \<Rightarrow> None | Some i \<Rightarrow> if i = 0 then None else Some (JInt i))"
  by (simp add: opt_int_def optional_entry_def split: option.split)

lemma map_of_optional_entry:
  "map_of (optional_entry k v @ rest) k' = (if k' = k \<and> v \<noteq> None then v else map_of rest k')"
  by (cases v) (simp_all add: optional_entry_def)

lemma map_of_optional_entry_last:
  "map_of (optional_entry k v) k' = (if k' = k then v else None)"
  by (cases v) (simp_all add: optional_entry_def)

lemma fst_optional_entry: "map fst (optional_entry k v) = (if v = None then [] else [k])"
  by (cases v) (simp_all add: optional_entry_def)

lemma get_invoices_params_entries:
  "get_invoices_params q =
     [(''page'', JInt (page q)), (''page_size'', JInt (min (page_size q) 100))]
     @ optional_entry ''created_start'' (forwarded_str (created_start q))
     @ optional_entry ''created_end'' (forwarded_str (created_end q))
     @ optional_entry ''date_start'' (forwarded_str (date_start q))
     @ optional_entry ''date_end'' (forwarded_str (date_end q))
     @ optional_entry ''updated_start'' (forwarded_str (updated_start q))
     @ optional_entry ''updated_end'' (forwarded_str (updated_end q))
     @ optional_entry ''customer_identification'' (forwarded_str (customer_identification q))
     @ optional_entry ''customer_branch_office''
         (case customer_branch_office q of
            None \<Rightarrow> None
          | Some i \<Rightarrow> if i = 0 then None else Some (JInt i))
     @ optional_entry ''name'' (forwarded_str (name q))"
  by (simp only: get_invoices_params_def opt_str_entry opt_int_entry)

lemma get_invoices_params_page: "map_of (get_invoices_params q) ''page'' = Some (JInt (page q))"
  by (simp add: get_invoices_params_def)

lemma get_invoices_params_page_size:
  "map_of (get_invoices_params q) ''page_size'' = Some (JInt (min (page_size q) 100))"
  by (simp add: get_invoices_params_def)

lemma get_invoices_params_filters:
  "map_of (get_invoices_params q) ''created_start'' = forwarded_str (created_start q)"
  "map_of (get_invoices_params q) ''created_end'' = forwarded_str (created_end q)"
  "map_of (get_invoices_params q) ''date_start'' = forwarded_str (date_start q)"
  "map_of (get_invoices_params q) ''date_end'' = forwarded_str (date_end q)"
  "map_of (get_invoices_params q) ''updated_start'' = forwarded_str (updated_start q)"
  "map_of (get_invoices_params q) ''updated_end'' = forwarded_str (updated_end q)"
  "map_of (get_invoices_params q) ''customer_identification'' = forwarded_str (customer_identification q)"
  "map_of (get_invoices_params q) ''name'' = forwarded_str (name q)"
  by (simp_all add: get_invoices_params_entries map_of_optional_entry map_of_optional_entry_last
        del: map_of_append)

lemma get_invoices_params_branch_office:
  "customer_branch_office q \<noteq> Some 0 \<longrightarrow>
   map_of (get_invoices_params q) ''customer_branch_office''
     = map_option JInt (customer_branch_office q)"
  by (simp add: get_invoices_params_entries map_of_optional_entry map_of_optional_entry_last
        del: map_of_append split: option.split)


lemma get_invoices_params_other:
  assumes "k \<notin> {''page'', ''page_size'', ''created_start'', ''created_end'', ''date_start'',
                 ''date_end'', ''updated_start'', ''updated_end'', ''customer_identification'',
                 ''customer_branch_office'', ''name''}"
  shows "map_of (get_invoices_params q) k = None"
  using assms
  by (simp add: get_invoices_params_entries map_of_optional_entry map_of_optional_entry_last
        del: map_of_append)

lemma get_invoices_params_dom:
  "dom (map_of (get_invoices_params q)) \<subseteq>
     {''page'', ''page_size'', ''created_start'', ''created_end'', ''date_start'',
      ''date_end'', ''updated_start'', ''updated_end'', ''customer_identification'',
      ''customer_branch_office'', ''name''}"
proof (rule subsetI)
  fix k
  assume "k \<in> dom (map_of (get_invoices_params q))"
  then have "map_of (get_invoices_params q) k \<noteq> None"
    by (simp only: domIff not_False_eq_True)
  then show "k \<in> {''page'', ''page_size'', ''created_start'', ''created_end'', ''date_start'',
      ''date_end'', ''updated_start'', ''updated_end'', ''customer_identification'',
      ''customer_branch_office'', ''name''}"
    by (rule contrapos_np) (rule get_invoices_params_other)
qed

lemma send_invoice_email_entry:
  "send_invoice_email invoice_id email copy_to =
     make_request ''POST'' (''/v1/invoices/'' @ invoice_id @ ''/mail'')
       (Some (JObj ((''mail_to'', JStr email) # optional_entry ''copy_to'' (forwarded_list copy_to))))
       None"
  by (simp add: send_invoice_email_def INVOICES_ENDPOINT_def optional_entry_def forwarded_list_def
        split: option.split)

lemma get_customers_entry:
  "get_customers pg pg_size identification =
     make_request ''GET'' ''/v1/customers'' None
       (Some ([(''page'', JInt pg), (''page_size'', JInt pg_size)]
              @ optional_entry ''identification'' (forwarded_str identification)))"
  by (simp only: get_customers_def opt_str_entry)

text \<open>
  C8 (as amended). Every typed operation returns what \<open>make_request\<close> returns for its
  verb, path, body and query, and checks none of its arguments. The arguments are passed
  on as they are, with one exception: \<open>get_invoices\<close> sends \<^verbatim>\<open>min(page_size, 100)\<close> as the
  page size. An optional argument (the filters of \<open>get_invoices\<close>, \<^verbatim>\<open>identification\<close> of
  \<open>get_customers\<close>, \<^verbatim>\<open>copy_to\<close> of \<open>send_invoice_email\<close>) is in the request exactly when it
  is not empty: neither \<^verbatim>\<open>None\<close> nor the empty string or list. For the branch office, an
  integer, this is stated of every value but 0, on which the statement is silent. The
  query of \<open>get_invoices\<close> has no other keys.
\<close>

theorem typed_operations_transparent:
  "get_invoices q c w =
     make_request ''GET'' ''/v1/invoices'' None (Some (get_invoices_params q)) c w
   \<and> map_of (get_invoices_params q) ''page'' = Some (JInt (page q))
   \<and> map_of (get_invoices_params q) ''page_size'' = Some (JInt (min (page_size q) 100))
   \<and> map_of (get_invoices_params q) ''created_start'' = forwarded_str (created_start q)
   \<and> map_of (get_invoices_params q) ''created_end'' = forwarded_str (created_end q)
   \<and> map_of (get_invoices_params q) ''date_start'' = forwarded_str (date_start q)
   \<and> map_of (get_invoices_params q) ''date_end'' = forwarded_str (date_end q)
   \<and> map_of (get_invoices_params q) ''updated_start'' = forwarded_str (updated_start q)
   \<and> map_of (get_invoices_params q) ''updated_end'' = forwarded_str (updated_end q)
   \<and> map_of (get_invoices_params q) ''customer_identification''
       = forwarded_str (customer_identification q)
   \<and> (customer_branch_office q \<noteq> Some 0 \<longrightarrow>
        map_of (get_invoices_params q) ''customer_branch_office''
          = map_option JInt (customer_branch_office q))
   \<and> map_of (get_invoices_params q) ''name'' = forwarded_str (name q)
   \<and> dom (map_of (get_invoices_params q)) \<subseteq>
       {''page'', ''page_size'', ''created_start'', ''created_end'', ''date_start'',
        ''date_end'', ''updated_start'', ''updated_end'', ''customer_identification'',
        ''customer_branch_office'', ''name''}
   \<and> get_invoice invoice_id c w =
       make_request ''GET'' (''/v1/invoices/'' @ invoice_id) None None c w
   \<and> create_invoice body c w = make_request ''POST'' ''/v1/invoices'' (Some body) None c w
   \<and> update_invoice invoice_id body c w =
       make_request ''PUT'' (''/v1/invoices/'' @ invoice_id) (Some body) None c w
   \<and> delete_invoice invoice_id c w =
       make_request ''DELETE'' (''/v1/invoices/'' @ invoice_id) None None c w
   \<and> send_invoice_email invoice_id email copy_to c w =
       make_request ''POST'' (''/v1/invoices/'' @ invoice_id @ ''/mail'')
         (Some (JObj ((''mail_to'', JStr email)
                      # optional_entry ''copy_to'' (forwarded_list copy_to))))
         None c w
   \<and> get_document_types c w =
       make_request ''GET'' ''/v1/document-types'' None (Some [(''type'', JStr ''FV'')]) c w
   \<and> get_payment_types document_type c w =
       make_request ''GET'' ''/v1/payment-types'' None
         (Some [(''document_type'', JStr document_type)]) c w
   \<and> get_taxes c w = make_request ''GET'' ''/v1/taxes'' None None c w
   \<and> get_sellers c w = make_request ''GET'' ''/v1/users'' None (Some [(''role'', JStr ''seller'')]) c w
   \<and> get_products pg pg_size c w =
       make_request ''GET'' ''/v1/products'' None
         (Some [(''page'', JInt pg), (''page_size'', JInt pg_size)]) c w
   \<and> get_customers pg pg_size identification c w =
       make_request ''GET'' ''/v1/customers'' None
         (Some ([(''page'', JInt pg), (''page_size'', JInt pg_size)]
                @ optional_entry ''identification'' (forwarded_str identification))) c w
   \<and> get_warehouses c w = make_request ''GET'' ''/v1/warehouses'' None None c w
   \<and> get_cost_centers c w = make_request ''GET'' ''/v1/cost-centers'' None None c w"
proof -
  have invoices: "INVOICES_ENDPOINT = ''/v1/invoices''"
    by (simp add: INVOICES_ENDPOINT_def)
  have a: "get_invoices q c w =
     make_request ''GET'' ''/v1/invoices'' None (Some (get_invoices_params q)) c w"
    by (simp only: get_invoices_def invoices)
  have b: "get_invoice invoice_id c w =
       make_request ''GET'' (''/v1/invoices/'' @ invoice_id) None None c w"
    by (simp add: get_invoice_def invoices)
  have d: "create_invoice body c w = make_request ''POST'' ''/v1/invoices'' (Some body) None c w"
    by (simp only: create_invoice_def invoices)
  have e: "update_invoice invoice_id body c w =
       make_request ''PUT'' (''/v1/invoices/'' @ invoice_id) (Some body) None c w"
    by (simp add: update_invoice_def invoices)
  have f: "delete_invoice invoice_id c w =
       make_request ''DELETE'' (''/v1/invoices/'' @ invoice_id) None None c w"
    by (simp add: delete_invoice_def invoices)
  have g: "get_document_types c w =
       make_request ''GET'' ''/v1/document-types'' None (Some [(''type'', JStr ''FV'')]) c w"
    "get_payment_types document_type c w =
       make_request ''GET'' ''/v1/payment-types'' None
         (Some [(''document_type'', JStr document_type)]) c w"
    "get_taxes c w = make_request ''GET'' ''/v1/taxes'' None None c w"
    "get_sellers c w = make_request ''GET'' ''/v1/users'' None (Some [(''role'', JStr ''seller'')]) c w"
    "get_products pg pg_size c w =
       make_request ''GET'' ''/v1/products'' None
         (Some [(''page'', JInt pg), (''page_size'', JInt pg_size)]) c w"
    "get_warehouses c w = make_request ''GET'' ''/v1/warehouses'' None None c w"
    "get_cost_centers c w = make_request ''GET'' ''/v1/cost-centers'' None None c w"
    by (simp_all only: get_document_types_def get_payment_types_def get_taxes_def get_sellers_def
          get_products_def get_warehouses_def get_cost_centers_def)
  show ?thesis
    by (intro conjI a b d e f g get_invoices_params_page get_invoices_params_page_size
          get_invoices_params_filters get_invoices_params_branch_office get_invoices_params_dom
          send_invoice_email_entry [THEN fun_cong, THEN fun_cong]
          get_customers_entry [THEN fun_cong, THEN fun_cong])
qed

theorem typed_operations_transparent_witness:
  "map_of (get_invoices_params
             (default_invoice_query\<lparr>page_size := 500, created_start := Some ''2024-03-01'',
                customer_branch_office := Some 3, name := Some []\<rparr>)) ''page_size'' = Some (JInt 100)
   \<and> map_of (get_invoices_params
             (default_invoice_query\<lparr>page_size := 500, created_start := Some ''2024-03-01'',
                customer_branch_office := Some 3, name := Some []\<rparr>)) ''created_start'' = Some (JStr ''2024-03-01'')
   \<and> map_of (get_invoices_params
             (default_invoice_query\<lparr>page_size := 500, created_start := Some ''2024-03-01'',
                customer_branch_office := Some 3, name := Some []\<rparr>)) ''customer_branch_office'' = Some (JInt 3)
   \<and> map_of (get_invoices_params
             (default_invoice_query\<lparr>page_size := 500, created_start := Some ''2024-03-01'',
                customer_branch_office := Some 3, name := Some []\<rparr>)) ''name'' = None
   \<and> map_of (get_invoices_params
             (default_invoice_query\<lparr>page_size := 500, created_start := Some ''2024-03-01'',
                customer_branch_office := Some 3, name := Some []\<rparr>)) ''date_end'' = None"
  using typed_operations_transparent
          [where q = "default_invoice_query\<lparr>page_size := 500, created_start := Some ''2024-03-01'',
                customer_branch_office := Some 3, name := Some []\<rparr>"]
  by (simp add: forwarded_str_def default_invoice_query_def)

text \<open>
  C8 as stated does not hold: \<open>get_invoices\<close> called with a page size of 500 sends a
  page size of 100.
\<close>

theorem get_invoices_page_size_counterexample:
  "page_size (default_invoice_query\<lparr>page_size := 500\<rparr>) = 500
   \<and> map req_params
       (sent (snd (snd (get_invoices (default_invoice_query\<lparr>page_size := 500\<rparr>)
                          (SiigoClient ''user'' ''key'' ''MyApp'')
                          (test_world [token_response, http_response 200 ''[]'' (Inr (JList []))]
                             [63846057600000000])))))
     = [None, Some [(''page'', JInt 1), (''page_size'', JInt 100)]]"
  by (simp add: get_invoices_def
        make_request_with_headers [OF get_auth_headers_example]
        Let_def test_world_sel scripted_net_def http_response_def is_http_error_def
        get_invoices_params_def default_invoice_query_def opt_str_def opt_int_def auth_request_def)

text \<open>
  C9 fails on the code for the PDF fetch. \<open>get_invoice_pdf\<close> handles the error status
  only: with a token obtained and the GET failing at transport level, the exception of
  the HTTP library reaches the caller, where \<open>make_request\<close> on the same failure raises
  \<open>SiigoAPIError\<close>.
\<close>

theorem get_invoice_pdf_transport_error:
  "fst (get_invoice_pdf ''1001'' (SiigoClient ''user'' ''key'' ''MyApp'')
          (test_world [token_response, ConnectionFailed ''timed out''] [63846057600000000]))
     = Inl (RequestException ''timed out'')"
  by (simp add: get_invoice_pdf_def get_auth_headers_example http_send_def test_world_sel
        scripted_net_def)

section \<open>The submission helper\<close>

lemma emit_invalid:
  assumes "py_upper (py_strip (or_empty placa)) = [] \<or> py_strip (or_empty id_number) = []
           \<or> py_strip (or_empty full_name) = [] \<or> py_strip (or_empty email) = []
           \<or> or_zero total_amount_cop \<le> 0"
  shows "\<exists>msg. emit_electronic_invoice placa id_number full_name email total_amount_cop cfg st w
               = (Inl (ValueError msg), w)"
  using assms by (auto simp: emit_electronic_invoice_def Let_def)

lemma emit_valid:
  assumes "py_upper (py_strip (or_empty placa)) \<noteq> []" and "py_strip (or_empty id_number) \<noteq> []"
    and "py_strip (or_empty full_name) \<noteq> []" and "py_strip (or_empty email) \<noteq> []"
    and "0 < or_zero total_amount_cop"
  shows "emit_electronic_invoice placa id_number full_name email total_amount_cop cfg st w =
     (case validar_config cfg of
        Inl e \<Rightarrow> (Inl e, w)
      | Inr u \<Rightarrow>
          (case create_invoice
                  (invoice_data cfg (strftime_ymd (clock w (reads w)))
                     (py_upper (py_strip (or_empty placa))) (py_strip (or_empty id_number))
                     (py_strip (or_empty full_name)) (or_zero total_amount_cop))
                  (SiigoClient (SIIGO_USERNAME st) (SIIGO_ACCESS_KEY st) (SIIGO_APP_NAME st))
                  (w\<lparr>reads := Suc (reads w)\<rparr>) of
             (Inl e, c1, w2) \<Rightarrow> (Inl e, w2)
           | (Inr result, c1, w2) \<Rightarrow>
               (case py_getitem result ''id'' of
                  Inl e \<Rightarrow> (Inr result, w2)
                | Inr invoice_id \<Rightarrow>
                    (Inr result,
                     snd (snd (send_invoice_email (py_str invoice_id) (py_strip (or_empty email))
                                 None c1 w2))))))"
  using assms
  by (simp add: emit_electronic_invoice_def Let_def datetime_now_def
        split: sum.split prod.split)

lemma py_strip_example: "py_upper (py_strip '' abc123 '') = ''ABC123''"
  by (simp add: py_upper_def py_strip_def py_isspace_def py_upper_char_def lower_letters_def
        upper_letters_def)

lemma test_world_reads_sel:
  "reads ((test_world outs rs)\<lparr>reads := n\<rparr>) = n"
  "sent ((test_world outs rs)\<lparr>reads := n\<rparr>) = []"
  "net ((test_world outs rs)\<lparr>reads := n\<rparr>) = scripted_net outs"
  "clock ((test_world outs rs)\<lparr>reads := n\<rparr>) k = (if k < length rs then rs ! k else 0)"
  by (simp_all add: test_world_def)

lemma example_inputs:
  "py_upper (py_strip (or_empty (Some '' abc123 ''))) = ''ABC123''"
  "py_strip (or_empty (Some ''900123456'')) = ''900123456''"
  "py_strip (or_empty (Some ''Ana Ruiz'')) = ''Ana Ruiz''"
  "py_strip (or_empty (Some ''ana@example.com'')) = ''ana@example.com''"
  "or_zero (Some 12000) = 12000"
  by (simp_all add: py_upper_def py_strip_def py_isspace_def py_upper_char_def lower_letters_def
        upper_letters_def or_empty_def or_zero_def)

lemma example_config_values:
  "example_config ''document_type_id'' = Some 24446"
  "example_config ''seller_id'' = Some 629"
  "example_config ''payment_type_id'' = Some 5636"
  "example_config ''tax_id'' = None"
  "missing_keys example_config = []"
  by (simp_all add: example_config_def configurar_siigo_def SIIGO_CONFIG_def missing_keys_def
        config_value_def)

lemma example_settings_sel:
  "SIIGO_USERNAME example_settings = ''user''"
  "SIIGO_ACCESS_KEY example_settings = ''key''"
  "SIIGO_APP_NAME example_settings = ''MyApp''"
  by (simp_all add: example_settings_def)

lemma strftime_example: "strftime_ymd 63846057600000000 = ''2024-03-15''"
  by (simp add: strftime_ymd_def ord2ymd_def Let_def DAYS_BEFORE_MONTH_def DAYS_IN_MONTH_def
        zero_pad_def str_nat.simps)

lemma dropWhile_all: "(dropWhile P xs = []) = list_all P xs"
  by (simp add: list_all_iff)

lemma list_all_dropWhile: "list_all P (dropWhile P xs) = list_all P xs"
  by (induction xs) simp_all

lemma py_strip_empty: "(py_strip s = []) = list_all py_isspace s"
  by (simp only: py_strip_def rev_is_Nil_conv dropWhile_all list_all_rev list_all_dropWhile)

lemma py_upper_char_nonempty: "py_upper_char c \<noteq> []"
  by (simp add: py_upper_char_def split: option.split)

lemma py_upper_empty: "(py_upper s = []) = (s = [])"
  by (cases s) (simp_all add: py_upper_def py_upper_char_nonempty)

lemma emit_normalised:
  assumes "py_upper (py_strip (or_empty placa)) = py_upper (py_strip (or_empty placa'))"
    and "py_strip (or_empty id_number) = py_strip (or_empty id_number')"
    and "py_strip (or_empty full_name) = py_strip (or_empty full_name')"
    and "py_strip (or_empty email) = py_strip (or_empty email')"
    and "or_zero total_amount_cop = or_zero total_amount_cop'"
  shows "emit_electronic_invoice placa id_number full_name email total_amount_cop cfg st w
         = emit_electronic_invoice placa' id_number' full_name' email' total_amount_cop' cfg st w"
  by (simp only: emit_electronic_invoice_def assms)

lemma latin1_inputs:
  "py_upper (py_strip (or_empty (Some ([CHR 0xF1] @ ''u12 '')))) = [CHR 0xD1] @ ''U12''"
  "py_strip (or_empty (Some ([CHR 0xA0] @ ''900123456'' @ [CHR 0x85]))) = ''900123456''"
  "py_strip (or_empty (Some [CHR 0xA0])) = []"
  by (simp_all add: py_upper_def py_strip_def py_isspace_def py_upper_char_def lower_letters_def
        upper_letters_def or_empty_def)

text \<open>
  C4. \<^verbatim>\<open>emit_electronic_invoice\<close> works on the normalised inputs: the four strings
  stripped, the plate in upper case as well, so that the plate \<^verbatim>\<open>" abc123 "\<close> becomes
  \<^verbatim>\<open>"ABC123"\<close>. Two calls whose normalised inputs agree do the same. A string is empty
  after normalisation exactly when it holds nothing but whitespace. When the plate, the
  identification, the name or the email is empty after normalisation, or the amount is not
  above zero, the call raises \<open>ValueError\<close> and the world is as before: no call of the HTTP
  library was issued and the clock was not read.
\<close>

theorem emit_validation:
  "py_upper (py_strip '' abc123 '') = ''ABC123''
   \<and> (py_upper (py_strip (or_empty placa)) = py_upper (py_strip (or_empty placa'))
        \<and> py_strip (or_empty id_number) = py_strip (or_empty id_number')
        \<and> py_strip (or_empty full_name) = py_strip (or_empty full_name')
        \<and> py_strip (or_empty email) = py_strip (or_empty email')
        \<and> or_zero total_amount_cop = or_zero total_amount_cop'
       \<longrightarrow> emit_electronic_invoice placa id_number full_name email total_amount_cop cfg st w
           = emit_electronic_invoice placa' id_number' full_name' email' total_amount_cop' cfg st w)
   \<and> (py_upper (py_strip s) = []) = list_all py_isspace s
   \<and> (py_strip s = []) = list_all py_isspace s
   \<and> (py_upper (py_strip (or_empty placa)) = [] \<or> py_strip (or_empty id_number) = []
        \<or> py_strip (or_empty full_name) = [] \<or> py_strip (or_empty email) = []
        \<or> or_zero total_amount_cop \<le> 0
       \<longrightarrow> (\<exists>msg. emit_electronic_invoice placa id_number full_name email total_amount_cop
                         cfg st w
                    = (Inl (ValueError msg), w)))"
proof -
  have a: "(py_upper (py_strip s) = []) = list_all py_isspace s"
    by (simp only: py_upper_empty py_strip_empty)
  show ?thesis
    using emit_invalid [of placa id_number full_name email total_amount_cop cfg st w]
      emit_normalised [of placa placa' id_number id_number' full_name full_name' email email'
        total_amount_cop total_amount_cop' cfg st w]
      py_strip_example a py_strip_empty [of s]
    by blast
qed

text \<open>
  An amount of zero with every string valid; an identification that is one no-break
  space; and the plate \<^verbatim>\<open>" abc123 "\<close>, which does what \<^verbatim>\<open>"ABC123"\<close> does.
\<close>

theorem emit_validation_witness:
  "(\<exists>msg. emit_electronic_invoice (Some '' abc123 '') (Some ''900123456'') (Some ''Ana Ruiz'')
            (Some ''ana@example.com'') (Some 0) SIIGO_CONFIG
            \<lparr>SIIGO_USERNAME = ''user'', SIIGO_ACCESS_KEY = ''key'', SIIGO_APP_NAME = ''MyApp''\<rparr>
            (test_world [] [])
          = (Inl (ValueError msg), test_world [] []))
   \<and> (\<exists>msg. emit_electronic_invoice (Some '' abc123 '') (Some [CHR 0xA0]) (Some ''Ana Ruiz'')
            (Some ''ana@example.com'') (Some 12000) SIIGO_CONFIG
            \<lparr>SIIGO_USERNAME = ''user'', SIIGO_ACCESS_KEY = ''key'', SIIGO_APP_NAME = ''MyApp''\<rparr>
            (test_world [] [])
          = (Inl (ValueError msg), test_world [] []))
   \<and> emit_electronic_invoice (Some '' abc123 '') (Some ''900123456'') (Some ''Ana Ruiz'')
            (Some ''ana@example.com'') (Some 12000) SIIGO_CONFIG
            \<lparr>SIIGO_USERNAME = ''user'', SIIGO_ACCESS_KEY = ''key'', SIIGO_APP_NAME = ''MyApp''\<rparr>
            (test_world [] [])
     = emit_electronic_invoice (Some ''ABC123'') (Some ''900123456'') (Some ''Ana Ruiz'')
            (Some ''ana@example.com'') (Some 12000) SIIGO_CONFIG
            \<lparr>SIIGO_USERNAME = ''user'', SIIGO_ACCESS_KEY = ''key'', SIIGO_APP_NAME = ''MyApp''\<rparr>
            (test_world [] [])"
proof -
  let ?st = "\<lparr>SIIGO_USERNAME = ''user'', SIIGO_ACCESS_KEY = ''key'', SIIGO_APP_NAME = ''MyApp''\<rparr>"
  have u: "py_upper (py_strip (or_empty (Some ''ABC123''))) = ''ABC123''"
    by (simp add: py_upper_def py_strip_def py_isspace_def py_upper_char_def lower_letters_def
          upper_letters_def or_empty_def)
  have a: "\<exists>msg. emit_electronic_invoice (Some '' abc123 '') (Some ''900123456'') (Some ''Ana Ruiz'')
            (Some ''ana@example.com'') (Some 0) SIIGO_CONFIG ?st (test_world [] [])
          = (Inl (ValueError msg), test_world [] [])"
    using emit_validation [of "Some '' abc123 ''" "Some '' abc123 ''" "Some ''900123456''"
          "Some ''900123456''" "Some ''Ana Ruiz''" "Some ''Ana Ruiz''" "Some ''ana@example.com''"
          "Some ''ana@example.com''" "Some 0" "Some 0" SIIGO_CONFIG ?st "test_world [] []" "[]"]
    by (simp add: or_zero_def)
  have b: "\<exists>msg. emit_electronic_invoice (Some '' abc123 '') (Some [CHR 0xA0]) (Some ''Ana Ruiz'')
            (Some ''ana@example.com'') (Some 12000) SIIGO_CONFIG ?st (test_world [] [])
          = (Inl (ValueError msg), test_world [] [])"
    using emit_validation [of "Some '' abc123 ''" "Some '' abc123 ''" "Some [CHR 0xA0]"
          "Some [CHR 0xA0]" "Some ''Ana Ruiz''" "Some ''Ana Ruiz''" "Some ''ana@example.com''"
          "Some ''ana@example.com''" "Some 12000" "Some 12000" SIIGO_CONFIG ?st "test_world [] []"
          "[]"]
    by (simp add: latin1_inputs)
  have c: "emit_electronic_invoice (Some '' abc123 '') (Some ''900123456'') (Some ''Ana Ruiz'')
            (Some ''ana@example.com'') (Some 12000) SIIGO_CONFIG ?st (test_world [] [])
     = emit_electronic_invoice (Some ''ABC123'') (Some ''900123456'') (Some ''Ana Ruiz'')
            (Some ''ana@example.com'') (Some 12000) SIIGO_CONFIG ?st (test_world [] [])"
    using emit_validation [of "Some '' abc123 ''" "Some ''ABC123''" "Some ''900123456''"
          "Some ''900123456''" "Some ''Ana Ruiz''" "Some ''Ana Ruiz''" "Some ''ana@example.com''"
          "Some ''ana@example.com''" "Some 12000" "Some 12000" SIIGO_CONFIG ?st "test_world [] []"
          "[]"]
    by (simp add: example_inputs u)
  show ?thesis
    using a b c by blast
qed

lemma missing_keys_filter:
  "missing_keys cfg =
     filter (\<lambda>k. cfg k = None \<or> cfg k = Some 0)
       [''document_type_id'', ''seller_id'', ''payment_type_id'']"
  by (simp add: missing_keys_def config_value_def split: option.split)

lemma missing_keys_tax: "missing_keys (cfg(''tax_id'' := t)) = missing_keys cfg"
  by (simp add: missing_keys_def config_value_def)

lemma validar_config_tax: "validar_config (cfg(''tax_id'' := t)) = validar_config cfg"
  by (simp only: validar_config_def missing_keys_tax)

lemma invoice_data_no_tax:
  "cfg ''tax_id'' = None \<Longrightarrow>
   json_at (invoice_data cfg today placa id_number full_name total_amount_cop)
     [Key ''items'', Idx 0, Key ''taxes''] = Some (JList [])"
  by (simp add: invoice_data_def config_value_def)

text \<open>
  C6. With valid strings and amount, a call under a configuration in which one of
  \<^verbatim>\<open>document_type_id\<close>, \<^verbatim>\<open>seller_id\<close>, \<^verbatim>\<open>payment_type_id\<close> is missing raises \<open>ValueError\<close>
  with the message of \<^verbatim>\<open>_validar_config\<close>, which lists the missing keys and no other, in
  the order of the required keys; the world is as before. A key is missing when its value
  is \<^verbatim>\<open>None\<close>, as before \<^verbatim>\<open>configurar_siigo\<close>, or zero. The value of \<^verbatim>\<open>tax_id\<close> has no part in
  the check, and without it the line item carries an empty list of taxes.
\<close>

theorem emit_missing_config:
  assumes "py_upper (py_strip (or_empty placa)) \<noteq> []" and "py_strip (or_empty id_number) \<noteq> []"
    and "py_strip (or_empty full_name) \<noteq> []" and "py_strip (or_empty email) \<noteq> []"
    and "0 < or_zero total_amount_cop"
  shows "(missing_keys cfg \<noteq> [] \<longrightarrow>
            emit_electronic_invoice placa id_number full_name email total_amount_cop cfg st w
            = (Inl (ValueError (''Faltan IDs de configuraci'' @ [CHR 0xF3] @ ''n: ''
                                @ repr_keys (missing_keys cfg)
                                @ ''. Ejecuta get_siigo_ids() para obtenerlos.'')), w))
       \<and> missing_keys cfg =
           filter (\<lambda>k. cfg k = None \<or> cfg k = Some 0)
             [''document_type_id'', ''seller_id'', ''payment_type_id'']
       \<and> validar_config (cfg(''tax_id'' := t)) = validar_config cfg
       \<and> (missing_keys cfg = [] \<longrightarrow> validar_config (cfg(''tax_id'' := None)) = Inr ())
       \<and> (cfg ''tax_id'' = None \<longrightarrow>
            json_at (invoice_data cfg today (py_upper (py_strip (or_empty placa)))
                       (py_strip (or_empty id_number)) (py_strip (or_empty full_name))
                       (or_zero total_amount_cop))
              [Key ''items'', Idx 0, Key ''taxes''] = Some (JList []))"
proof -
  have a: "missing_keys cfg \<noteq> [] \<longrightarrow>
            emit_electronic_invoice placa id_number full_name email total_amount_cop cfg st w
            = (Inl (ValueError (''Faltan IDs de configuraci'' @ [CHR 0xF3] @ ''n: ''
                                @ repr_keys (missing_keys cfg)
                                @ ''. Ejecuta get_siigo_ids() para obtenerlos.'')), w)"
    by (simp add: emit_valid [OF assms] validar_config_def)
  have b: "missing_keys cfg = [] \<longrightarrow> validar_config (cfg(''tax_id'' := None)) = Inr ()"
    by (simp add: validar_config_tax) (simp add: validar_config_def)
  show ?thesis
    using a b missing_keys_filter [of cfg] validar_config_tax [of cfg t] invoice_data_no_tax
    by blast
qed

text \<open>
  Only the seller is configured: the message lists the two other keys.
\<close>

theorem emit_missing_config_witness:
  "emit_electronic_invoice (Some '' abc123 '') (Some ''900123456'') (Some ''Ana Ruiz'')
     (Some ''ana@example.com'') (Some 12000) (SIIGO_CONFIG(''seller_id'' := Some 7))
     \<lparr>SIIGO_USERNAME = ''user'', SIIGO_ACCESS_KEY = ''key'', SIIGO_APP_NAME = ''MyApp''\<rparr>
     (test_world [] [])
   = (Inl (ValueError (''Faltan IDs de configuraci'' @ [CHR 0xF3]
                       @ ''n: ['' @ [CHR 0x27] @ ''document_type_id'' @ [CHR 0x27] @ '', ''
                       @ [CHR 0x27] @ ''payment_type_id'' @ [CHR 0x27]
                       @ '']. Ejecuta get_siigo_ids() para obtenerlos.'')),
      test_world [] [])
   \<and> missing_keys (SIIGO_CONFIG(''seller_id'' := Some 7))
     = [''document_type_id'', ''payment_type_id'']"
proof -
  have h1: "py_upper (py_strip (or_empty (Some '' abc123 ''))) \<noteq> []"
    and h2: "py_strip (or_empty (Some ''900123456'')) \<noteq> []"
    and h3: "py_strip (or_empty (Some ''Ana Ruiz'')) \<noteq> []"
    and h4: "py_strip (or_empty (Some ''ana@example.com'')) \<noteq> []"
    and h5: "0 < or_zero (Some 12000)"
    by (simp_all add: example_inputs)
  have m: "missing_keys (SIIGO_CONFIG(''seller_id'' := Some 7))
             = [''document_type_id'', ''payment_type_id'']"
    by (simp add: missing_keys_def config_value_def SIIGO_CONFIG_def)
  show ?thesis
    using emit_missing_config [OF h1 h2 h3 h4 h5,
            where cfg = "SIIGO_CONFIG(''seller_id'' := Some 7)"
              and st = "\<lparr>SIIGO_USERNAME = ''user'', SIIGO_ACCESS_KEY = ''key'',
                         SIIGO_APP_NAME = ''MyApp''\<rparr>"
              and w = "test_world [] []"]
    by (simp add: m repr_keys_def)
qed

lemma make_request_sent_prefix:
  "\<exists>xs. sent (snd (snd (make_request verb endpoint data params c w))) = sent w @ xs"
proof -
  obtain x c1 w1 where g: "get_auth_headers c w = (x, c1, w1)"
    by (cases "get_auth_headers c w") auto
  have s: "\<exists>ys. sent w1 = sent w @ ys"
    using get_auth_headers_sent [of c w] g by simp
  show ?thesis
  proof (cases x)
    case (Inl e)
    then show ?thesis
      using g s by (simp add: make_request_auth_failed)
  next
    case (Inr headers)
    then show ?thesis
      using s make_request_with_headers [of c w headers c1 w1 verb endpoint data params] g
      by (auto simp: Let_def split: net_outcome.split sum.split)
  qed
qed

lemma create_invoice_new_client:
  assumes "net w (sent w @ [auth_request (SiigoClient u k a)]) = Responded r"
    and "\<not> is_http_error r" and "resp_json r = Inr (JObj kvs)"
  shows "sent (snd (snd (create_invoice body (SiigoClient u k a) w))) =
           sent w @ [auth_request (SiigoClient u k a),
                     \<lparr>req_method = ''POST'', req_url = ''https://api.siigo.com/v1/invoices'',
                      req_headers = [(''Authorization'', ''Bearer '' @ py_str (dict_get kvs ''access_token'')),
                                     (''Content-Type'', ''application/json''),
                                     (''Partner-Id'', a)],
                      req_json = Some body, req_params = None\<rparr>]"
proof -
  have h: "auth_headers ((SiigoClient u k a)\<lparr>access_token := dict_get kvs ''access_token'',
                      token_expiry := Some (clock w (reads w) + hours 24)\<rparr>)
           = [(''Authorization'', ''Bearer '' @ py_str (dict_get kvs ''access_token'')),
              (''Content-Type'', ''application/json''), (''Partner-Id'', a)]"
    by (simp add: auth_headers_def SiigoClient_def)
  have u: "BASE_URL @ INVOICES_ENDPOINT = ''https://api.siigo.com/v1/invoices''"
    by (simp add: BASE_URL_def INVOICES_ENDPOINT_def)
  show ?thesis
    unfolding create_invoice_def
      make_request_with_headers [OF get_auth_headers_new_client [OF assms]] h u
    by (simp add: Let_def split: net_outcome.split sum.split)
qed

lemma emit_sent_prefix:
  assumes "py_upper (py_strip (or_empty placa)) \<noteq> []" and "py_strip (or_empty id_number) \<noteq> []"
    and "py_strip (or_empty full_name) \<noteq> []" and "py_strip (or_empty email) \<noteq> []"
    and "0 < or_zero total_amount_cop"
    and "missing_keys cfg = []"
  shows "\<exists>xs. sent (snd (emit_electronic_invoice placa id_number full_name email total_amount_cop
                            cfg st w))
             = sent (snd (snd (create_invoice
                  (invoice_data cfg (strftime_ymd (clock w (reads w)))
                     (py_upper (py_strip (or_empty placa))) (py_strip (or_empty id_number))
                     (py_strip (or_empty full_name)) (or_zero total_amount_cop))
                  (SiigoClient (SIIGO_USERNAME st) (SIIGO_ACCESS_KEY st) (SIIGO_APP_NAME st))
                  (w\<lparr>reads := Suc (reads w)\<rparr>)))) @ xs"
proof -
  let ?cr = "create_invoice
                  (invoice_data cfg (strftime_ymd (clock w (reads w)))
                     (py_upper (py_strip (or_empty placa))) (py_strip (or_empty id_number))
                     (py_strip (or_empty full_name)) (or_zero total_amount_cop))
                  (SiigoClient (SIIGO_USERNAME st) (SIIGO_ACCESS_KEY st) (SIIGO_APP_NAME st))
                  (w\<lparr>reads := Suc (reads w)\<rparr>)"
  obtain x c1 w2 where cr: "?cr = (x, c1, w2)"
    by (cases ?cr) auto
  have v: "validar_config cfg = Inr ()"
    using assms(6) by (simp add: validar_config_def)
  show ?thesis
  proof (cases x)
    case (Inl e)
    then show ?thesis
      using cr v by (simp add: emit_valid [OF assms(1-5)])
  next
    case (Inr result)
    show ?thesis
    proof (cases "py_getitem result ''id''")
      case (Inl e)
      then show ?thesis
        using cr v Inr by (simp add: emit_valid [OF assms(1-5)])
    next
      case i: (Inr invoice_id)
      obtain xs where
        "sent (snd (snd (send_invoice_email (py_str invoice_id) (py_strip (or_empty email)) None c1 w2)))
         = sent w2 @ xs"
        using make_request_sent_prefix unfolding send_invoice_email_def by blast
      then show ?thesis
        using cr v Inr i by (simp add: emit_valid [OF assms(1-5)])
    qed
  qed
qed

lemma invoice_data_fields:
  "json_at (invoice_data cfg today placa id_number full_name total_amount_cop)
     [Key ''document'', Key ''id''] = Some (config_value cfg ''document_type_id'')"
  "json_at (invoice_data cfg today placa id_number full_name total_amount_cop)
     [Key ''date''] = Some (JStr today)"
  "json_at (invoice_data cfg today placa id_number full_name total_amount_cop)
     [Key ''customer'', Key ''identification''] = Some (JStr id_number)"
  "json_at (invoice_data cfg today placa id_number full_name total_amount_cop)
     [Key ''items'', Idx 0, Key ''price''] = Some (JInt total_amount_cop)"
  "json_at (invoice_data cfg today placa id_number full_name total_amount_cop)
     [Key ''items'', Idx 0, Key ''quantity''] = Some (JInt 1)"
  "json_at (invoice_data cfg today placa id_number full_name total_amount_cop)
     [Key ''items'', Idx 0, Key ''discount''] = Some (JInt 0)"
  "json_at (invoice_data cfg today placa id_number full_name total_amount_cop)
     [Key ''items'', Idx 1] = None"
  "json_at (invoice_data cfg today placa id_number full_name total_amount_cop)
     [Key ''payments'', Idx 0, Key ''value''] = Some (JInt total_amount_cop)"
  "json_at (invoice_data cfg today placa id_number full_name total_amount_cop)
     [Key ''payments'', Idx 0, Key ''due_date''] = Some (JStr today)"
  by (simp_all add: invoice_data_def)

lemma config_value_set:
  "missing_keys cfg = [] \<Longrightarrow>
   config_value cfg ''document_type_id'' = JInt (the (cfg ''document_type_id''))
   \<and> the (cfg ''document_type_id'') \<noteq> 0"
  by (auto simp: missing_keys_def config_value_def split: option.splits if_splits)

text \<open>
  C5. In a valid call under a complete configuration, with the authentication of the
  new client answered by a token, the first two calls issued are the authentication and
  the creation of the invoice, a POST to \<^verbatim>\<open>/v1/invoices\<close> whose body is the payload. In the
  payload the document id is the configured document type, the date is the reading of the
  clock formatted by \<^verbatim>\<open>strftime("%Y-%m-%d")\<close>, the customer identification is the stripped
  \<^verbatim>\<open>id_number\<close>, there is one line item, with the amount as price, quantity 1 and discount
  0, and the payment has the amount as value and the date of the invoice as due date.
\<close>

theorem emit_payload_round_trip:
  assumes "py_upper (py_strip (or_empty placa)) \<noteq> []" and "py_strip (or_empty id_number) \<noteq> []"
    and "py_strip (or_empty full_name) \<noteq> []" and "py_strip (or_empty email) \<noteq> []"
    and "0 < or_zero total_amount_cop"
    and "missing_keys cfg = []"
    and "net w (sent w @ [auth_request (SiigoClient (SIIGO_USERNAME st) (SIIGO_ACCESS_KEY st)
                                          (SIIGO_APP_NAME st))]) = Responded r"
    and "\<not> is_http_error r" and "resp_json r = Inr (JObj kvs)"
    and "today = strftime_ymd (clock w (reads w))"
    and "payload = invoice_data cfg today (py_upper (py_strip (or_empty placa)))
                     (py_strip (or_empty id_number)) (py_strip (or_empty full_name))
                     (or_zero total_amount_cop)"
  shows "take 2 (drop (length (sent w))
                  (sent (snd (emit_electronic_invoice placa id_number full_name email
                                total_amount_cop cfg st w))))
         = [auth_request (SiigoClient (SIIGO_USERNAME st) (SIIGO_ACCESS_KEY st) (SIIGO_APP_NAME st)),
            \<lparr>req_method = ''POST'', req_url = ''https://api.siigo.com/v1/invoices'',
             req_headers = [(''Authorization'', ''Bearer '' @ py_str (dict_get kvs ''access_token'')),
                            (''Content-Type'', ''application/json''),
                            (''Partner-Id'', SIIGO_APP_NAME st)],
             req_json = Some payload, req_params = None\<rparr>]
       \<and> json_at payload [Key ''document'', Key ''id''] = Some (JInt (the (cfg ''document_type_id'')))
       \<and> json_at payload [Key ''date''] = Some (JStr today)
       \<and> json_at payload [Key ''customer'', Key ''identification'']
           = Some (JStr (py_strip (or_empty id_number)))
       \<and> json_at payload [Key ''items'', Idx 0, Key ''price''] = Some (JInt (or_zero total_amount_cop))
       \<and> json_at payload [Key ''items'', Idx 0, Key ''quantity''] = Some (JInt 1)
       \<and> json_at payload [Key ''items'', Idx 0, Key ''discount''] = Some (JInt 0)
       \<and> json_at payload [Key ''items'', Idx 1] = None
       \<and> json_at payload [Key ''payments'', Idx 0, Key ''value'']
           = Some (JInt (or_zero total_amount_cop))
       \<and> json_at payload [Key ''payments'', Idx 0, Key ''due_date''] = Some (JStr today)"
proof -
  let ?client = "SiigoClient (SIIGO_USERNAME st) (SIIGO_ACCESS_KEY st) (SIIGO_APP_NAME st)"
  let ?w1 = "w\<lparr>reads := Suc (reads w)\<rparr>"
  have n: "net ?w1 (sent ?w1 @ [auth_request ?client]) = Responded r"
    using assms(7) by simp
  obtain xs where
    "sent (snd (emit_electronic_invoice placa id_number full_name email total_amount_cop cfg st w))
     = sent (snd (snd (create_invoice payload ?client ?w1))) @ xs"
    using emit_sent_prefix [OF assms(1-6)] unfolding assms(10,11) by blast
  then have
    "sent (snd (emit_electronic_invoice placa id_number full_name email total_amount_cop cfg st w))
     = sent w @ [auth_request ?client,
            \<lparr>req_method = ''POST'', req_url = ''https://api.siigo.com/v1/invoices'',
             req_headers = [(''Authorization'', ''Bearer '' @ py_str (dict_get kvs ''access_token'')),
                            (''Content-Type'', ''application/json''),
                            (''Partner-Id'', SIIGO_APP_NAME st)],
             req_json = Some payload, req_params = None\<rparr>] @ xs"
    by (simp add: create_invoice_new_client [OF n assms(8,9)])
  then have a: "take 2 (drop (length (sent w))
                  (sent (snd (emit_electronic_invoice placa id_number full_name email
                                total_amount_cop cfg st w))))
         = [auth_request ?client,
            \<lparr>req_method = ''POST'', req_url = ''https://api.siigo.com/v1/invoices'',
             req_headers = [(''Authorization'', ''Bearer '' @ py_str (dict_get kvs ''access_token'')),
                            (''Content-Type'', ''application/json''),
                            (''Partner-Id'', SIIGO_APP_NAME st)],
             req_json = Some payload, req_params = None\<rparr>]"
    by simp
  have d: "json_at payload [Key ''document'', Key ''id'']
           = Some (JInt (the (cfg ''document_type_id'')))"
    using config_value_set [OF assms(6)] by (simp add: assms(11) invoice_data_fields)
  show ?thesis
    by (intro conjI a d) (simp_all only: assms(11) invoice_data_fields)
qed

text \<open>
  A call on 2024-03-15, with a plate that begins with the letter U+00F1 and an
  identification between a no-break space and U+0085: the bodies of the two calls.
\<close>

theorem emit_payload_round_trip_witness:
  "map req_json
     (take 2 (sent (snd (emit_electronic_invoice (Some ([CHR 0xF1] @ ''u12 ''))
                           (Some ([CHR 0xA0] @ ''900123456'' @ [CHR 0x85]))
                           (Some ''Ana Ruiz'') (Some ''ana@example.com'') (Some 12000)
                           example_config example_settings
                           (test_world [token_response, created_response]
                              [63846057600000000, 63846057600000000, 63846057600000000])))))
   = [Some (JObj [(''username'', JStr ''user''), (''access_key'', JStr ''key'')]),
      Some (JObj
        [(''document'', JObj [(''id'', JInt 24446)]),
         (''date'', JStr ''2024-03-15''),
         (''customer'', JObj [(''identification'', JStr ''900123456''), (''branch_office'', JInt 0)]),
         (''seller'', JInt 629),
         (''items'', JList
            [JObj [(''code'', JStr ''PARQUEADERO''),
                   (''description'', JStr ''Servicio de Parqueadero''),
                   (''quantity'', JInt 1),
                   (''price'', JInt 12000),
                   (''discount'', JInt 0),
                   (''taxes'', JList [])]]),
         (''payments'', JList
            [JObj [(''id'', JInt 5636), (''value'', JInt 12000), (''due_date'', JStr ''2024-03-15'')]]),
         (''observations'', JStr (''Placa: '' @ [CHR 0xD1] @ ''U12 - Cliente: Ana Ruiz''))])]"
proof -
  let ?W = "test_world [token_response, created_response]
              [63846057600000000, 63846057600000000, 63846057600000000]"
  let ?r = "\<lparr>status_code = 200, resp_content = ''{\"access_token\": \"tok\"}'',
             resp_text = ''{\"access_token\": \"tok\"}'',
             resp_json = Inr (JObj [(''access_token'', JStr ''tok'')])\<rparr>"
  have h1: "py_upper (py_strip (or_empty (Some ([CHR 0xF1] @ ''u12 '')))) \<noteq> []"
    and h2: "py_strip (or_empty (Some ([CHR 0xA0] @ ''900123456'' @ [CHR 0x85]))) \<noteq> []"
    and h3: "py_strip (or_empty (Some ''Ana Ruiz'')) \<noteq> []"
    and h4: "py_strip (or_empty (Some ''ana@example.com'')) \<noteq> []"
    and h5: "0 < or_zero (Some 12000)"
    using latin1_inputs by (simp_all add: example_inputs)
  have n: "net ?W (sent ?W @ [auth_request (SiigoClient (SIIGO_USERNAME example_settings)
                      (SIIGO_ACCESS_KEY example_settings) (SIIGO_APP_NAME example_settings))])
           = Responded ?r"
    by (simp add: test_world_sel scripted_net_def token_response_def http_response_def)
  have e: "\<not> is_http_error ?r"
    by (simp add: is_http_error_def)
  have j: "resp_json ?r = Inr (JObj [(''access_token'', JStr ''tok'')])"
    by simp
  note p = emit_payload_round_trip [OF h1 h2 h3 h4 h5 example_config_values(5) n e j refl refl,
             THEN conjunct1]
  have "take 2 (sent (snd (emit_electronic_invoice (Some ([CHR 0xF1] @ ''u12 ''))
                           (Some ([CHR 0xA0] @ ''900123456'' @ [CHR 0x85]))
                           (Some ''Ana Ruiz'') (Some ''ana@example.com'') (Some 12000)
                           example_config example_settings ?W)))
        = [auth_request (SiigoClient ''user'' ''key'' ''MyApp''),
           \<lparr>req_method = ''POST'', req_url = ''https://api.siigo.com/v1/invoices'',
            req_headers = [(''Authorization'', ''Bearer tok''),
                           (''Content-Type'', ''application/json''),
                           (''Partner-Id'', ''MyApp'')],
            req_json = Some (invoice_data example_config ''2024-03-15'' ([CHR 0xD1] @ ''U12'') ''900123456''
                               ''Ana Ruiz'' 12000),
            req_params = None\<rparr>]"
    using p latin1_inputs
    by (simp add: test_world_sel strftime_example example_inputs example_settings_sel
          dict_get_def)
  then show ?thesis
    by (simp add: auth_request_def SiigoClient_def invoice_data_def config_value_def
          example_config_values ITEM_PARQUEADERO_def dict_get_def)
qed

text \<open>
  C7. In a valid call under a complete configuration in which \<open>create_invoice\<close> returns
  a record, \<^verbatim>\<open>emit_electronic_invoice\<close> returns that record, whatever becomes of the email:
  the subscript \<^verbatim>\<open>result["id"]\<close> may fail, and \<open>send_invoice_email\<close> may return or raise. The
  world is the one that the attempt to send the email leaves.
\<close>

theorem emit_email_best_effort:
  assumes "py_upper (py_strip (or_empty placa)) \<noteq> []" and "py_strip (or_empty id_number) \<noteq> []"
    and "py_strip (or_empty full_name) \<noteq> []" and "py_strip (or_empty email) \<noteq> []"
    and "0 < or_zero total_amount_cop"
    and "missing_keys cfg = []"
    and "create_invoice
           (invoice_data cfg (strftime_ymd (clock w (reads w)))
              (py_upper (py_strip (or_empty placa))) (py_strip (or_empty id_number))
              (py_strip (or_empty full_name)) (or_zero total_amount_cop))
           (SiigoClient (SIIGO_USERNAME st) (SIIGO_ACCESS_KEY st) (SIIGO_APP_NAME st))
           (w\<lparr>reads := Suc (reads w)\<rparr>)
         = (Inr result, c1, w2)"
  shows "emit_electronic_invoice placa id_number full_name email total_amount_cop cfg st w =
           (Inr result,
            case py_getitem result ''id'' of
              Inl e \<Rightarrow> w2
            | Inr invoice_id \<Rightarrow>
                snd (snd (send_invoice_email (py_str invoice_id) (py_strip (or_empty email))
                            None c1 w2)))"
proof -
  have v: "validar_config cfg = Inr ()"
    using assms(6) by (simp add: validar_config_def)
  show ?thesis
    by (simp add: emit_valid [OF assms(1-5)] v assms(7) split: sum.split)
qed

text \<open>
  The invoice is created and the email cannot be sent (the connection is refused): the
  call returns the created record.
\<close>

theorem emit_email_best_effort_witness:
  "fst (emit_electronic_invoice (Some '' abc123 '') (Some ''900123456'') (Some ''Ana Ruiz'')
          (Some ''ana@example.com'') (Some 12000) example_config example_settings
          (test_world [token_response, created_response]
             [63846057600000000, 63846057600000000, 63846057600000000]))
   = Inr (JObj [(''id'', JStr ''inv-1'')])
   \<and> fst (send_invoice_email ''inv-1'' ''ana@example.com'' None logged_in
            ((test_world [token_response, created_response]
                [63846057600000000, 63846057600000000, 63846057600000000])
               \<lparr>reads := 2,
                 sent := [auth_request (SiigoClient ''user'' ''key'' ''MyApp''),
                          \<lparr>req_method = ''POST'', req_url = ''https://api.siigo.com/v1/invoices'',
                           req_headers = auth_headers logged_in,
                           req_json = Some (invoice_data example_config ''2024-03-15'' ''ABC123''
                                              ''900123456'' ''Ana Ruiz'' 12000),
                           req_params = None\<rparr>]\<rparr>))
     = Inl (SiigoAPIError ''Connection error: connection refused'' None None)"
proof -
  let ?W = "test_world [token_response, created_response]
              [63846057600000000, 63846057600000000, 63846057600000000]"
  let ?c0 = "SiigoClient ''user'' ''key'' ''MyApp''"
  let ?r = "\<lparr>status_code = 200, resp_content = ''{\"access_token\": \"tok\"}'',
             resp_text = ''{\"access_token\": \"tok\"}'',
             resp_json = Inr (JObj [(''access_token'', JStr ''tok'')])\<rparr>"
  let ?body = "invoice_data example_config ''2024-03-15'' ''ABC123'' ''900123456'' ''Ana Ruiz'' 12000"
  let ?rq = "\<lparr>req_method = ''POST'', req_url = ''https://api.siigo.com/v1/invoices'',
              req_headers = auth_headers logged_in, req_json = Some ?body, req_params = None\<rparr>"
  let ?w2 = "?W\<lparr>reads := 2, sent := [auth_request ?c0, ?rq]\<rparr>"
  have h1: "py_upper (py_strip (or_empty (Some '' abc123 ''))) \<noteq> []"
    and h2: "py_strip (or_empty (Some ''900123456'')) \<noteq> []"
    and h3: "py_strip (or_empty (Some ''Ana Ruiz'')) \<noteq> []"
    and h4: "py_strip (or_empty (Some ''ana@example.com'')) \<noteq> []"
    and h5: "0 < or_zero (Some 12000)"
    by (simp_all add: example_inputs)
  have n: "net (?W\<lparr>reads := Suc 0\<rparr>) (sent (?W\<lparr>reads := Suc 0\<rparr>) @ [auth_request ?c0])
           = Responded ?r"
    by (simp add: test_world_reads_sel scripted_net_def token_response_def http_response_def)
  have e: "\<not> is_http_error ?r"
    by (simp add: is_http_error_def)
  have j: "resp_json ?r = Inr (JObj [(''access_token'', JStr ''tok'')])"
    by simp
  have g: "get_auth_headers ?c0 (?W\<lparr>reads := Suc 0\<rparr>)
           = (Inr (auth_headers logged_in), logged_in,
              ?W\<lparr>reads := 2, sent := [auth_request ?c0]\<rparr>)"
    using get_auth_headers_new_client [OF n e j]
    by (simp add: test_world_reads_sel test_world_sel dict_get_def hours_def logged_in_def)
  have u: "BASE_URL @ INVOICES_ENDPOINT = ''https://api.siigo.com/v1/invoices''"
    by (simp add: BASE_URL_def INVOICES_ENDPOINT_def)
  have cr: "create_invoice ?body ?c0 (?W\<lparr>reads := Suc 0\<rparr>)
            = (Inr (JObj [(''id'', JStr ''inv-1'')]), logged_in, ?w2)"
    unfolding create_invoice_def make_request_with_headers [OF g] u
    by (simp add: Let_def test_world_sel scripted_net_def created_response_def http_response_def
          is_http_error_def)
  have cr': "create_invoice
           (invoice_data example_config (strftime_ymd (clock ?W (reads ?W)))
              (py_upper (py_strip (or_empty (Some '' abc123 ''))))
              (py_strip (or_empty (Some ''900123456'')))
              (py_strip (or_empty (Some ''Ana Ruiz''))) (or_zero (Some 12000)))
           (SiigoClient (SIIGO_USERNAME example_settings) (SIIGO_ACCESS_KEY example_settings)
              (SIIGO_APP_NAME example_settings))
           (?W\<lparr>reads := Suc (reads ?W)\<rparr>)
         = (Inr (JObj [(''id'', JStr ''inv-1'')]), logged_in, ?w2)"
    using cr by (simp add: test_world_sel strftime_example example_inputs example_settings_sel)
  have first: "fst (emit_electronic_invoice (Some '' abc123 '') (Some ''900123456'')
          (Some ''Ana Ruiz'') (Some ''ana@example.com'') (Some 12000) example_config
          example_settings ?W)
   = Inr (JObj [(''id'', JStr ''inv-1'')])"
    using emit_email_best_effort [OF h1 h2 h3 h4 h5 example_config_values(5) cr']
    by simp
  have nd: "\<not> refresh_due logged_in (clock ?w2 (reads ?w2))"
    by (simp add: refresh_due_def logged_in_def test_world_def hours_def SiigoClient_def)
  have mail: "fst (send_invoice_email ''inv-1'' ''ana@example.com'' None logged_in ?w2)
     = Inl (SiigoAPIError ''Connection error: connection refused'' None None)"
    unfolding send_invoice_email_def make_request_with_headers [OF get_auth_headers_not_due [OF nd]]
    by (simp add: Let_def test_world_def scripted_net_def)
  show ?thesis
    using first mail by simp
qed

end
